theory Spec2Isabelle
  imports Complex_Main
begin

section \<open>Conventions of the embedding\<close>

text \<open>
  The C++ type \<^verbatim>\<open>double\<close> (and PETSc's \<^verbatim>\<open>PetscScalar\<close>, \<^verbatim>\<open>PetscReal\<close>) is
  modelled by the HOL type \<^typ>\<open>real\<close>: arithmetic is exact, rounding, infinities and NaN
  are outside the model. Grid indices, cluster ids and counts are natural numbers or integers
  as the code uses them. An array \<^verbatim>\<open>double *\<close> is a \<^typ>\<open>real list\<close>, the ghosted
  two-level PETSc array \<^verbatim>\<open>double **\<close> is a \<^typ>\<open>real list list\<close> indexed by the grid
  point. The array offset of a cluster is \<^verbatim>\<open>getId() - 1\<close>: the residual loop computes
  it from the id, the records of the monitor and of the trap mutation hold the offset itself.
\<close>

section \<open>PSISuperCluster (PSISuperCluster.h)\<close>

record PSISuperCluster =
  numHe :: real
  numV :: real
  nTot :: int
  sectionHeWidth :: int
  sectionVWidth :: int
  heBounds :: "int \<times> int"
  vBounds :: "int \<times> int"
  l0 :: real
  l1He :: real
  l1V :: real

text \<open>\<^verbatim>\<open>IntegerRange::contains\<close>: the half-open interval \<open>[first, last)\<close>.\<close>

definition contains :: "int \<times> int \<Rightarrow> int \<Rightarrow> bool" where
  "contains b n = (fst b \<le> n \<and> n < snd b)"

definition isIn :: "PSISuperCluster \<Rightarrow> int \<Rightarrow> int \<Rightarrow> bool" where
  "isIn c nHe nV = (contains (heBounds c) nHe \<and> contains (vBounds c) nV)"

definition getConcentration :: "PSISuperCluster \<Rightarrow> real \<Rightarrow> real \<Rightarrow> real" where
  "getConcentration c distHe distV = l0 c + (distHe * l1He c) + (distV * l1V c)"

definition getHeDistance :: "PSISuperCluster \<Rightarrow> int \<Rightarrow> real" where
  "getHeDistance c he =
     (if sectionHeWidth c = 1 then 0.0
      else 2.0 * (real_of_int he - numHe c) / (real_of_int (sectionHeWidth c) - 1.0))"

definition getVDistance :: "PSISuperCluster \<Rightarrow> int \<Rightarrow> real" where
  "getVDistance c v =
     (if sectionVWidth c = 1 then 0.0
      else 2.0 * (real_of_int v - numV c) / (real_of_int (sectionVWidth c) - 1.0))"

text \<open>
  The distance to the mean along one axis as the specification words it:
  \<open>d_axis(n) = 2 (n - mean_axis) / (width_axis - 1)\<close>, and \<open>0\<close> if the width is \<open>1\<close>.
\<close>

definition spec_d_axis :: "real \<Rightarrow> int \<Rightarrow> int \<Rightarrow> real" where
  "spec_d_axis mean width n =
     (if width = 1 then 0 else 2 * (real_of_int n - mean) / (real_of_int width - 1))"

section \<open>The negative-concentration monitor (Monitor1D.cpp)\<close>

text \<open>
  \<^verbatim>\<open>setupPetsc1DMonitor\<close>, option \<^verbatim>\<open>-check_negative\<close>: \<^verbatim>\<open>PetscOptionsGetReal\<close> stores the
  value given on the command line and sets the flag; without a value the threshold is
  \<open>1.0e-30\<close>. The argument is the value of the option, if any.
\<close>

definition setupNegThreshold :: "real option \<Rightarrow> real" where
  "setupNegThreshold opt = (case opt of Some v \<Rightarrow> v | None \<Rightarrow> 1 / 10 ^ 30)"

text \<open>The body of the inner loop of \<^verbatim>\<open>checkNegative1D\<close> for one entry.\<close>

definition clampEntry :: "real \<Rightarrow> real \<Rightarrow> real" where
  "clampEntry negThreshold x =
     (if x < negThreshold \<and> x > 0.0 then negThreshold
      else if x > - negThreshold \<and> x < 0.0 then - negThreshold
      else x)"

text \<open>
  A \<^verbatim>\<open>for\<close> loop that rewrites the entries \<open>is\<close> of an array in place, in order; the new
  value of entry \<open>i\<close> is computed from \<open>i\<close> and the old value.
\<close>

definition updateEach :: "(nat \<Rightarrow> 'a \<Rightarrow> 'a) \<Rightarrow> nat list \<Rightarrow> 'a list \<Rightarrow> 'a list" where
  "updateEach f is a = fold (\<lambda>i s. s[i := f i (s ! i)]) is a"

text \<open>
  \<^verbatim>\<open>checkNegative1D\<close>: the loop on the local grid \<open>xs \<le> i < xs + xm\<close> and on the
  \<open>nClusters\<close> concentrations of each grid point. The result is the solution array and the
  PETSc error code returned (\<open>0\<close>: the time stepper goes on).
\<close>

definition checkNegative1D ::
  "real \<Rightarrow> nat \<Rightarrow> nat \<Rightarrow> nat \<Rightarrow> real list list \<Rightarrow> real list list \<times> int" where
  "checkNegative1D negThreshold nClusters xs xm solutionArray =
     (updateEach (\<lambda>i. updateEach (\<lambda>l. clampEntry negThreshold) [0..<nClusters])
        [xs..<xs + xm] solutionArray, 0)"

section \<open>The residual loop of the 1D solver handler (PetscSolver1DHandler.cpp)\<close>

text \<open>
  The collaborators of \<^verbatim>\<open>PetscSolver1DHandler\<close> (temperature, flux, diffusion, advection and
  trap-mutation handlers, the reaction network) are not part of the sources at hand; they are
  parameters of the model, one function per method the handler calls. \<open>'n\<close> is the state
  of the network, \<open>'m\<close> the state of the trap-mutation handler. A method that updates an
  output row in place takes the row and returns the new one.
\<close>

record ('n, 'm) collaborators =
  getTemperature :: "real \<Rightarrow> real \<Rightarrow> real"
  getIncidentFluxVec :: "real \<Rightarrow> nat \<Rightarrow> real list"
  getHeliumId :: "'n \<Rightarrow> nat option"
  networkSize :: "'n \<Rightarrow> nat"
  setTemperature :: "real \<Rightarrow> 'n \<Rightarrow> 'n"
  updateTrapMutationRate :: "'n \<Rightarrow> 'm \<Rightarrow> 'm"
  updateConcentrationsFromArray :: "real list \<Rightarrow> 'n \<Rightarrow> 'n"
  computeDiffusion ::
    "'n \<Rightarrow> real list \<times> real list \<times> real list \<Rightarrow> real list \<Rightarrow> real \<Rightarrow> real \<Rightarrow> real list"
  computeAdvection ::
    "'n \<Rightarrow> real \<Rightarrow> real \<Rightarrow> real list \<times> real list \<times> real list \<Rightarrow> real list \<Rightarrow> real list"
  computeTrapMutation :: "'m \<Rightarrow> 'n \<Rightarrow> nat \<Rightarrow> real list \<Rightarrow> real list \<Rightarrow> real list"
  getTotalFlux :: "'n \<Rightarrow> nat \<Rightarrow> real"
  getId :: "'n \<Rightarrow> nat \<Rightarrow> nat"

text \<open>
  The fields of the handler that the residual loop reads or writes.
  \<open>setTemperatureCalls\<close> is not a field of the source: it counts the calls of
  \<^verbatim>\<open>network->setTemperature\<close> (each followed by \<^verbatim>\<open>updateTrapMutationRate\<close>), so that
  statements about the number of calls can be made.
\<close>

record ('n, 'm) solverHandler =
  grid :: "real list"
  surfacePosition :: nat
  lastTemperature :: real
  network :: 'n
  mutationHandler :: 'm
  setTemperatureCalls :: nat

text \<open>
  Modelled from the spec: \<^verbatim>\<open>xolotlCore::equal\<close> (MathUtils.h) is not among the sources.
  The specification says that a temperature unchanged to within \<open>1e-12\<close> counts as equal to
  the cached one and that one differing by more than the tolerance triggers the update.
\<close>

definition equal :: "real \<Rightarrow> real \<Rightarrow> bool" where
  "equal a b = (\<bar>b - a\<bar> \<le> 1 / 10 ^ 12)"

text \<open>The boundary test of the loops; \<open>xSize\<close> is \<^verbatim>\<open>grid.size()\<close>.\<close>

definition isBoundary :: "('n, 'm) solverHandler \<Rightarrow> nat \<Rightarrow> bool" where
  "isBoundary sh xi = (xi \<le> surfacePosition sh \<or> int xi = int (length (grid sh)) - 1)"

text \<open>
  The body of the loop over grid points of \<^verbatim>\<open>updateConcentration\<close>, for the grid point
  \<open>xi\<close>: \<open>concs\<close> is the array of \<^verbatim>\<open>localC\<close>, the state is the handler and the array
  \<open>updatedConcs\<close> of \<^verbatim>\<open>F\<close>.
\<close>

definition updateConcentrationAt ::
  "('n, 'm) collaborators \<Rightarrow> real \<Rightarrow> real list \<Rightarrow> nat \<Rightarrow> nat \<Rightarrow> real list list \<Rightarrow> nat \<Rightarrow>
   ('n, 'm) solverHandler \<times> real list list \<Rightarrow> ('n, 'm) solverHandler \<times> real list list" where
  "updateConcentrationAt col ftime incidentFluxVector heliumIndex dof concs xi = (\<lambda>(sh, updatedConcs).
     let concOffset = concs ! xi;
         updatedConcOffset = updatedConcs ! xi;
         concVector = (concOffset, concs ! (xi - 1), concs ! (xi + 1))
     in
     if isBoundary sh xi then
       (sh, updatedConcs[xi := updateEach (\<lambda>i old. 1.0 * concOffset ! i) [0..<dof] updatedConcOffset])
     else
       let temperature = getTemperature col (grid sh ! xi) ftime;
           sh1 = (if \<not> equal temperature (lastTemperature sh)
                  then sh\<lparr>network := setTemperature col temperature (network sh),
                          mutationHandler := updateTrapMutationRate col
                             (setTemperature col temperature (network sh)) (mutationHandler sh),
                          lastTemperature := temperature,
                          setTemperatureCalls := setTemperatureCalls sh + 1\<rparr>
                  else sh);
           sh2 = sh1\<lparr>network := updateConcentrationsFromArray col concOffset (network sh1)\<rparr>;
           net = network sh2;
           u1 = updatedConcOffset[heliumIndex := updatedConcOffset ! heliumIndex + incidentFluxVector ! xi];
           u2 = computeDiffusion col net concVector u1
                  (grid sh ! xi - grid sh ! (xi - 1)) (grid sh ! (xi + 1) - grid sh ! xi);
           u3 = computeAdvection col net (grid sh ! (xi + 1) - grid sh ! xi)
                  (grid sh ! xi - grid sh ! surfacePosition sh) concVector u2;
           u4 = computeTrapMutation col (mutationHandler sh2) net xi concOffset u3;
           u5 = fold (\<lambda>i u. let reactantIndex = getId col net i - 1
                             in u[reactantIndex := u ! reactantIndex + getTotalFlux col net i])
                  [0..<dof] u4
       in (sh2, updatedConcs[xi := u5]))"

text \<open>
  \<^verbatim>\<open>updateConcentration\<close>. The helium cluster of size one is dereferenced before the
  loop (\<^verbatim>\<open>heCluster->getId() - 1\<close>); a network without it makes the call fail, which is
  the result \<open>None\<close>. The local grid points are \<open>xs \<le> xi < xs + xm\<close>.
\<close>

definition updateConcentration ::
  "('n, 'm) collaborators \<Rightarrow> nat \<Rightarrow> nat \<Rightarrow> real \<Rightarrow> real list list \<Rightarrow>
   ('n, 'm) solverHandler \<times> real list list \<Rightarrow> (('n, 'm) solverHandler \<times> real list list) option" where
  "updateConcentration col xs xm ftime concs = (\<lambda>(sh, updatedConcs).
     let incidentFluxVector = getIncidentFluxVec col ftime (surfacePosition sh) in
     case getHeliumId col (network sh) of
       None \<Rightarrow> None
     | Some heId \<Rightarrow>
         let heliumIndex = heId - 1;
             dof = networkSize col (network sh)
         in Some (fold (updateConcentrationAt col ftime incidentFluxVector heliumIndex dof concs)
                    [xs..<xs + xm] (sh, updatedConcs)))"

section \<open>The event controller (Monitor1D.cpp)\<close>

text \<open>
  What the event function reads of an interstitial cluster: its array offset, its size and
  its diffusion coefficient at a local grid index.
\<close>

record iCluster =
  iOffset :: nat
  iSize :: int
  getDiffusionCoefficient :: "int \<Rightarrow> real"

text \<open>
  The inputs of the event functions that come from the solver handler, the flux handler, the
  network and the constants: \<open>interstitials\<close> is \<^verbatim>\<open>network.getAll(ReactantType::I)\<close>,
  \<open>getTotalAtomConcentration\<close> is the network's method applied to the row that
  \<^verbatim>\<open>updateConcentrationsFromArray\<close> has loaded, \<open>getRandomDouble k\<close> is the \<open>k\<close>-th
  draw of the solver handler's random number generator, \<open>tungstenLatticeConstant\<close> is
  the constant of Constants.h (not among the sources, hence a parameter).
\<close>

record eventEnv =
  moveSurface :: bool
  burstBubbles :: bool
  getSurfacePosition :: nat
  getXGrid :: "real list"
  getInitialVConc :: real
  getFluxAmplitude :: real
  getTauBursting :: real
  interstitials :: "iCluster list"
  getTotalAtomConcentration :: "real list \<Rightarrow> real"
  getRandomDouble :: "nat \<Rightarrow> real"
  previousTime :: real
  sputteringYield1D :: real
  tungstenLatticeConstant :: real

text \<open>
  The variables of the monitor that the event functions write, the number of random draws
  made so far, and what the post-event function tells the solver:
  \<open>surfaceOffset\<close> is the argument of \<^verbatim>\<open>setSurfaceOffset\<close> once it is called,
  \<open>convergedUser\<close> says that \<^verbatim>\<open>TSSetConvergedReason(ts, TS_CONVERGED_USER)\<close> was called.
\<close>

record controller =
  nInterstitial1D :: real
  previousIFlux1D :: real
  depthPositions1D :: "nat list"
  randomDraws :: nat
  surfaceOffset :: "int option"
  convergedUser :: bool

text \<open>
  The model is one process of a communicator of size one: \<^verbatim>\<open>MPI_Allreduce\<close> and
  \<^verbatim>\<open>MPI_Bcast\<close> are then identities. Writing the files \<^verbatim>\<open>surface.txt\<close> and
  \<^verbatim>\<open>bursting.txt\<close> is left out.
\<close>

text \<open>
  The loop over the interstitial clusters: the flux going to the left at \<open>xi\<close>. The
  divisor of the finite-difference factor is positive on a grid that increases strictly,
  which the grids of the data model do; on another grid the flux of the code can be infinite
  or NaN, which the model does not represent.
\<close>

definition interstitialFlux :: "eventEnv \<Rightarrow> nat \<Rightarrow> nat \<Rightarrow> real list \<Rightarrow> real" where
  "interstitialFlux env xs xi gridPointSolution =
     fold (\<lambda>cluster newFlux.
        let conc = gridPointSolution ! iOffset cluster;
            size = iSize cluster;
            coef = getDiffusionCoefficient cluster (int xi - int xs);
            hxLeft = getXGrid env ! (xi + 1) - getXGrid env ! xi;
            hxRight = getXGrid env ! (xi + 2) - getXGrid env ! (xi + 1);
            factor = 2.0 / (hxLeft * (hxLeft + hxRight))
        in newFlux + real_of_int size * factor * coef * conc * hxLeft)
       (interstitials env) 0.0"

text \<open>The density threshold at the grid point \<open>xi\<close>; the density of tungsten is 62.8.\<close>

definition densityThreshold :: "real \<Rightarrow> real list \<Rightarrow> nat \<Rightarrow> real" where
  "densityThreshold initialVConc xgrid xi = (62.8 - initialVConc) * (xgrid ! (xi + 1) - xgrid ! xi)"

text \<open>The block \<^verbatim>\<open>if (solverHandler.moveSurface())\<close> of \<^verbatim>\<open>eventFunction1D\<close>.\<close>

definition surfaceEvent ::
  "eventEnv \<Rightarrow> real \<Rightarrow> nat \<Rightarrow> nat \<Rightarrow> real list list \<Rightarrow> real list \<times> controller \<Rightarrow> real list \<times> controller" where
  "surfaceEvent env time xs xm solutionArray = (\<lambda>(fvalue, st).
     let xi = getSurfacePosition env + 1;
         dt = time - previousTime env;
         st1 = (if xi \<ge> xs \<and> xi < xs + xm then
                  let gridPointSolution = solutionArray ! xi;
                      n1 = nInterstitial1D st + previousIFlux1D st * dt;
                      n2 = n1 - sputteringYield1D env * getFluxAmplitude env * dt
                  in st\<lparr>nInterstitial1D := n2,
                        previousIFlux1D := interstitialFlux env xs xi gridPointSolution\<rparr>
                else st);
         threshold = densityThreshold (getInitialVConc env) (getXGrid env) xi
     in if nInterstitial1D st1 > threshold then (fvalue[0 := 0.0], st1)
        else if nInterstitial1D st1 < - threshold / 10.0 then (fvalue[1 := 0.0], st1)
        else (fvalue, st1))"

text \<open>The radius of the bubble at a grid point, from the helium density \<open>heDensity\<close>.\<close>

definition bubbleRadius :: "eventEnv \<Rightarrow> real \<Rightarrow> nat \<Rightarrow> real" where
  "bubbleRadius env heDensity xi =
     (let nV = heDensity * (getXGrid env ! (xi + 1) - getXGrid env ! xi) / 4.0;
          tlcCubed = tungstenLatticeConstant env * tungstenLatticeConstant env
                       * tungstenLatticeConstant env
      in (sqrt 3.0 / 4) * tungstenLatticeConstant env
           + root 3 ((3.0 * tlcCubed * nV) / (8.0 * pi))
           - root 3 ((3.0 * tlcCubed) / (8.0 * pi)))"

text \<open>
  The comparison \<^verbatim>\<open>prob > test\<close> of the random branch, where
  \<^verbatim>\<open>prob = prefactor * (1.0 - (distance - radius) / distance) * min(1.0, exp(-(distance - depthParam) / (depthParam * 2.0)))\<close>.
  The code divides by \<open>distance\<close> and by \<open>depthParam * 2.0\<close>. Where a divisor is
  zero the quotient of the code is infinite or NaN, which no real number is, and the model
  takes the outcome that the IEEE arithmetic of the code gives the comparison.
  With \<open>distance = 0\<close> (the grid point of the surface; the radius is not positive in this
  branch) the quotient \<open>(0 - radius) / 0\<close> is plus infinity for a negative radius and NaN
  for the radius zero; the last factor is \<open>1.0\<close> (\<open>exp(0.5)\<close> is above one, and
  \<^verbatim>\<open>std::min(1.0, NaN)\<close> is its first argument); so \<open>prob\<close> is minus infinity for a
  positive prefactor, NaN for the prefactor zero or the radius zero, and plus infinity for a
  negative prefactor and a negative radius: only then the comparison holds.
  With \<open>depthParam = 0\<close> and a distance that is not zero the exponent is minus infinity
  for a positive distance and plus infinity for a negative one, so the last factor is
  \<open>0\<close> or \<open>1\<close>.
\<close>

definition probabilityAbove :: "real \<Rightarrow> real \<Rightarrow> real \<Rightarrow> real \<Rightarrow> real \<Rightarrow> bool" where
  "probabilityAbove prefactor depthParam distance radius test =
     (if distance = 0 then prefactor < 0 \<and> radius < 0
      else
        let lastFactor =
              (if depthParam * 2.0 = 0 then (if distance > 0 then 0.0 else 1.0)
               else min 1.0 (exp (- (distance - depthParam) / (depthParam * 2.0))));
            prob = prefactor * (1.0 - (distance - radius) / distance) * lastFactor
        in prob > test)"

text \<open>
  The body of the loop on the full grid of the bursting block; the state is the flag
  \<open>burst\<close> and the monitor's variables.
\<close>

definition burstingAt ::
  "eventEnv \<Rightarrow> real \<Rightarrow> nat \<Rightarrow> nat \<Rightarrow> real list list \<Rightarrow> nat \<Rightarrow> bool \<times> controller \<Rightarrow> bool \<times> controller" where
  "burstingAt env dt xs xm solutionArray xi = (\<lambda>(burst, st).
     if xi < getSurfacePosition env then (burst, st)
     else if xi \<ge> xs \<and> xi < xs + xm then
       let prefactor = getFluxAmplitude env * dt * 0.1;
           depthParam = getTauBursting env;
           gridPointSolution = solutionArray ! xi;
           distance = getXGrid env ! (xi + 1) - getXGrid env ! (getSurfacePosition env + 1);
           heDensity = getTotalAtomConcentration env gridPointSolution;
           radius = bubbleRadius env heDensity xi
       in if radius > distance
          then (True, st\<lparr>depthPositions1D := depthPositions1D st @ [xi]\<rparr>)
          else
            let test = getRandomDouble env (randomDraws st);
                st1 = st\<lparr>randomDraws := randomDraws st + 1\<rparr>
            in if probabilityAbove prefactor depthParam distance radius test
               then (True, st1\<lparr>depthPositions1D := depthPositions1D st1 @ [xi]\<rparr>)
               else (burst, st1)
     else (burst, st))"

text \<open>The block \<^verbatim>\<open>if (solverHandler.burstBubbles())\<close> of \<^verbatim>\<open>eventFunction1D\<close>.\<close>

definition burstingEvent ::
  "eventEnv \<Rightarrow> real \<Rightarrow> nat \<Rightarrow> nat \<Rightarrow> nat \<Rightarrow> real list list \<Rightarrow> real list \<times> controller \<Rightarrow> real list \<times> controller" where
  "burstingEvent env time xs xm Mx solutionArray = (\<lambda>(fvalue, st).
     let dt = time - previousTime env;
         (burst, st1) = fold (burstingAt env dt xs xm solutionArray) [0..<Mx] (False, st)
     in if burst then (fvalue[2 := 0.0], st1) else (fvalue, st1))"

text \<open>
  \<^verbatim>\<open>eventFunction1D\<close>: the three switches \<open>fvalue\<close> and the monitor's variables after the
  evaluation. \<open>xs\<close>, \<open>xm\<close> are the corners of the local grid, \<open>Mx\<close> the size of the
  whole grid.
\<close>

definition eventFunction1D ::
  "eventEnv \<Rightarrow> real \<Rightarrow> nat \<Rightarrow> nat \<Rightarrow> nat \<Rightarrow> real list list \<Rightarrow> controller \<Rightarrow> real list \<times> controller" where
  "eventFunction1D env time xs xm Mx solutionArray st =
     (let st0 = st\<lparr>depthPositions1D := []\<rparr>;
          fvalue = [1.0, 1.0, 1.0];
          r1 = (if moveSurface env then surfaceEvent env time xs xm solutionArray (fvalue, st0)
                else (fvalue, st0));
          r2 = (if burstBubbles env then burstingEvent env time xs xm Mx solutionArray r1 else r1)
      in r2)"

text \<open>
  The loops of \<^verbatim>\<open>postEventFunction1D\<close> that move the surface. They need not terminate (a
  threshold that is not positive), so the result is an option. Moving up: the loop variables
  are \<open>nInterstitial1D\<close>, \<open>surfacePos\<close> and \<open>nGridPoints\<close>. The last statement
  of the body declares a new variable \<open>threshold\<close> in the scope of the body; the variable
  of that name tested by the loop and subtracted in the body is the one declared before the
  loop, which no statement assigns.
\<close>

partial_function (option) moveUpLoop ::
  "real \<Rightarrow> real \<Rightarrow> real list \<Rightarrow> real \<times> int \<times> int \<Rightarrow> (real \<times> int \<times> int) option" where
  "moveUpLoop threshold initialVConc xgrid s =
     (case s of (nInterstitial, surfacePos, nGridPoints) \<Rightarrow>
        if nInterstitial > threshold then
          (let surfacePos' = surfacePos - 1;
               xi = surfacePos' + 1;
               nGridPoints' = nGridPoints + 1;
               nInterstitial' = nInterstitial - threshold;
               thresholdOfBody = (62.8 - initialVConc) * (xgrid ! nat (xi + 1) - xgrid ! nat xi)
           in moveUpLoop threshold initialVConc xgrid (nInterstitial', surfacePos', nGridPoints'))
        else Some s)"

text \<open>
  Moving back: the loop variables are \<open>nInterstitial1D\<close>, \<open>surfacePos\<close>, \<open>xi\<close>
  and \<open>nGridPoints\<close>; here the threshold is assigned in the body.
\<close>

partial_function (option) moveDownLoop ::
  "real \<Rightarrow> real list \<Rightarrow> real \<times> int \<times> int \<times> int \<Rightarrow> (real \<times> int \<times> int \<times> int) option" where
  "moveDownLoop initialVConc xgrid s =
     (case s of (nInterstitial, surfacePos, xi, nGridPoints) \<Rightarrow>
        if nInterstitial < 0.0 then
          (let threshold = (62.8 - initialVConc) * (xgrid ! nat (xi + 2) - xgrid ! nat (xi + 1));
               surfacePos' = surfacePos + 1;
               xi' = surfacePos' + 1;
               nGridPoints' = nGridPoints - 1;
               nInterstitial' = nInterstitial + threshold
           in moveDownLoop initialVConc xgrid (nInterstitial', surfacePos', xi', nGridPoints'))
        else Some s)"

text \<open>
  The moving-up loop as the specification describes it, for comparison: each step
  subtracts the threshold of the current interval and then recomputes the threshold for the
  new surface position, and the loop stops when \<open>nInterstitial\<close> no longer exceeds that
  next threshold.
\<close>

partial_function (option) spec_moveUpLoop ::
  "real \<Rightarrow> real list \<Rightarrow> real \<times> real \<times> int \<times> int \<Rightarrow> (real \<times> real \<times> int \<times> int) option" where
  "spec_moveUpLoop initialVConc xgrid s =
     (case s of (threshold, nInterstitial, surfacePos, nGridPoints) \<Rightarrow>
        if nInterstitial > threshold then
          (let surfacePos' = surfacePos - 1;
               xi = surfacePos' + 1;
               nGridPoints' = nGridPoints + 1;
               nInterstitial' = nInterstitial - threshold;
               threshold' = (62.8 - initialVConc) * (xgrid ! nat (xi + 1) - xgrid ! nat xi)
           in spec_moveUpLoop initialVConc xgrid (threshold', nInterstitial', surfacePos', nGridPoints'))
        else Some s)"

text \<open>
  What the post-event function reads of the network when bubbles burst. The clusters of a
  type are listed in the order of \<^verbatim>\<open>network.getAll(type)\<close>, each by its array offset;
  a mixed cluster also by the number of vacancies of its composition; a super cluster by its
  offset, the offsets of its four moments and its bounds along the vacancy axis
  (\<^verbatim>\<open>getBounds(3)\<close>, a half-open integer range). \<open>vClusters\<close> lists the vacancy
  clusters as pairs of size and offset: \<^verbatim>\<open>network.get(Species::V, n)\<close> is the lookup of
  \<open>n\<close>, and a null pointer is \<open>None\<close>. \<^verbatim>\<open>getIntegratedVConcentration\<close> is a method of
  a version of the super cluster that is not among the sources; it is a parameter, a function
  of the cluster, of the concentrations loaded into the network and of the number of
  vacancies.
\<close>

record superCluster =
  sOffset :: nat
  sMomentOffset :: "nat \<Rightarrow> nat"
  sVBounds :: "nat \<times> nat"

record burstNetwork =
  heOffsets :: "nat list"
  dOffsets :: "nat list"
  tOffsets :: "nat list"
  mixedClusters :: "(nat \<times> nat) list"
  superClusters :: "superCluster list"
  vClusters :: "(nat \<times> nat) list"
  getIntegratedVConcentration :: "superCluster \<Rightarrow> real list \<Rightarrow> nat \<Rightarrow> real"

definition getV :: "burstNetwork \<Rightarrow> nat \<Rightarrow> nat option" where
  "getV net n = map_of (vClusters net) n"

text \<open>The loops that reset the He, D and T concentrations of a grid point.\<close>

definition resetAll :: "nat list \<Rightarrow> real list \<Rightarrow> real list" where
  "resetAll ids gridPointSolution = fold (\<lambda>cid g. g[cid := 0.0]) ids gridPointSolution"

text \<open>
  The loop over the mixed clusters: the concentration goes to the vacancy cluster with the same
  number of vacancies. A missing vacancy cluster is a null pointer that the code dereferences.
\<close>

fun transferMixed :: "burstNetwork \<Rightarrow> (nat \<times> nat) list \<Rightarrow> real list \<Rightarrow> real list option" where
  "transferMixed net [] g = Some g"
| "transferMixed net ((cid, nV) # rest) g =
     (case getV net nV of
        None \<Rightarrow> None
      | Some vId \<Rightarrow> transferMixed net rest ((g[vId := g ! vId + g ! cid])[cid := 0.0]))"

text \<open>
  The loop on the vacancy bounds of one super cluster; \<open>loaded\<close> is the row that
  \<^verbatim>\<open>updateConcentrationsFromArray\<close> has copied into the network.
\<close>

fun addIntegratedV ::
  "burstNetwork \<Rightarrow> superCluster \<Rightarrow> real list \<Rightarrow> nat list \<Rightarrow> real list \<Rightarrow> real list option" where
  "addIntegratedV net cluster loaded [] g = Some g"
| "addIntegratedV net cluster loaded (j # js) g =
     (let conc = getIntegratedVConcentration net cluster loaded j
      in case getV net j of
           None \<Rightarrow> None
         | Some vId \<Rightarrow> addIntegratedV net cluster loaded js (g[vId := g ! vId + conc]))"

text \<open>The loop on the super clusters.\<close>

fun transferSuper ::
  "burstNetwork \<Rightarrow> real list \<Rightarrow> superCluster list \<Rightarrow> real list \<Rightarrow> real list option" where
  "transferSuper net loaded [] g = Some g"
| "transferSuper net loaded (cluster # rest) g =
     (case addIntegratedV net cluster loaded [fst (sVBounds cluster)..<snd (sVBounds cluster)] g of
        None \<Rightarrow> None
      | Some g1 \<Rightarrow>
          transferSuper net loaded rest
            (g1[sOffset cluster := 0.0, sMomentOffset cluster 0 := 0.0,
                sMomentOffset cluster 1 := 0.0, sMomentOffset cluster 2 := 0.0,
                sMomentOffset cluster 3 := 0.0]))"

text \<open>The body of the loop on the bursting depths, for the row of one grid point.\<close>

definition burstAt :: "burstNetwork \<Rightarrow> real list \<Rightarrow> real list option" where
  "burstAt net gridPointSolution =
     (let loaded = gridPointSolution;
          g1 = resetAll (heOffsets net) gridPointSolution;
          g2 = resetAll (dOffsets net) g1;
          g3 = resetAll (tOffsets net) g2
      in case transferMixed net (mixedClusters net) g3 of
           None \<Rightarrow> None
         | Some g4 \<Rightarrow> transferSuper net loaded (superClusters net) g4)"

text \<open>The loop on the bursting depths.\<close>

fun burstAll :: "burstNetwork \<Rightarrow> nat list \<Rightarrow> real list list \<Rightarrow> real list list option" where
  "burstAll net [] solutionArray = Some solutionArray"
| "burstAll net (d # ds) solutionArray =
     (case burstAt net (solutionArray ! d) of
        None \<Rightarrow> None
      | Some g \<Rightarrow> burstAll net ds (solutionArray[d := g]))"

text \<open>
  \<^verbatim>\<open>postEventFunction1D\<close>. The calls of \<^verbatim>\<open>computeFluence\<close> and \<^verbatim>\<open>monitorTime\<close>
  (Monitor.cpp, not among the sources) are left out. The call fails when three events are
  reported (the exception thrown) or when a vacancy cluster is missing; it does not return
  when a loop that moves the surface runs forever, which is the result \<open>None\<close>.
\<close>

datatype failure = MovingBothWays | NullCluster

definition postEventFunction1D ::
  "eventEnv \<Rightarrow> burstNetwork \<Rightarrow> nat \<Rightarrow> int list \<Rightarrow> real list list \<times> controller \<Rightarrow>
   (failure + real list list \<times> controller) option" where
  "postEventFunction1D env net nevents eventList = (\<lambda>(solutionArray, st).
     if nevents = 0 then Some (Inr (solutionArray, st))
     else if nevents = 3 then Some (Inl MovingBothWays)
     else
       case burstAll net (depthPositions1D st) solutionArray of
         None \<Rightarrow> Some (Inl NullCluster)
       | Some solutionArray' \<Rightarrow>
           let moving = list_ex (\<lambda>e. e < 2) (take nevents eventList);
               movingUp = list_ex (\<lambda>e. e = 0) (take nevents eventList)
           in if \<not> moving then Some (Inr (solutionArray', st))
              else
                let surfacePos = int (getSurfacePosition env);
                    xi = surfacePos + 1;
                    initialVConc = getInitialVConc env;
                    threshold = (62.8 - initialVConc)
                                  * (getXGrid env ! nat (xi + 1) - getXGrid env ! nat xi)
                in if movingUp then
                     (case moveUpLoop threshold initialVConc (getXGrid env)
                             (nInterstitial1D st, surfacePos, 0) of
                        None \<Rightarrow> None
                      | Some (nInterstitial, surfacePos', nGridPoints) \<Rightarrow>
                          let st1 = st\<lparr>nInterstitial1D := nInterstitial\<rparr>
                          in if surfacePos' < 0
                             then Some (Inr (solutionArray',
                                     st1\<lparr>surfaceOffset := Some nGridPoints, convergedUser := True\<rparr>))
                             else Some (Inr (solutionArray', st1)))
                   else
                     (case moveDownLoop initialVConc (getXGrid env)
                             (nInterstitial1D st, surfacePos, xi, 0) of
                        None \<Rightarrow> None
                      | Some (nInterstitial, surfacePos', xi', nGridPoints) \<Rightarrow>
                          Some (Inr (solutionArray',
                                  st\<lparr>nInterstitial1D := nInterstitial,
                                     surfaceOffset := Some nGridPoints, convergedUser := True\<rparr>))))"

text \<open>
  Notions used to state what the bursting does to a row: the offsets of the vacancy clusters,
  the offsets a super cluster occupies (its own and those of its four moments), the sum of the
  concentrations of the mixed clusters with \<open>k\<close> vacancies, and the sum over the super
  clusters of the integrated concentration at \<open>k\<close> vacancies.
\<close>

definition vOffsets :: "burstNetwork \<Rightarrow> nat set" where
  "vOffsets net = snd ` set (vClusters net)"

definition superOffsets :: "superCluster \<Rightarrow> nat set" where
  "superOffsets c = {sOffset c, sMomentOffset c 0, sMomentOffset c 1, sMomentOffset c 2,
                     sMomentOffset c 3}"

definition mixedInto :: "burstNetwork \<Rightarrow> (nat \<times> nat) list \<Rightarrow> real list \<Rightarrow> nat \<Rightarrow> real" where
  "mixedInto net ms g k = (\<Sum>(cid, nV)\<leftarrow>ms. if nV = k then g ! cid else 0)"

definition superInto :: "burstNetwork \<Rightarrow> superCluster list \<Rightarrow> real list \<Rightarrow> nat \<Rightarrow> real" where
  "superInto net cs loaded k =
     (\<Sum>c\<leftarrow>cs. \<Sum>j\<leftarrow>[fst (sVBounds c)..<snd (sVBounds c)].
         if j = k then getIntegratedVConcentration net c loaded j else 0)"

text \<open>
  The offsets of a network fit a row of length \<open>n\<close>: the mixed clusters have distinct
  offsets, the vacancy clusters distinct sizes and distinct offsets, every offset is below
  \<open>n\<close>, no vacancy cluster shares its offset with a cluster of another type, no mixed
  cluster shares it with a He, D or T cluster, and the vacancy cluster exists for every number
  of vacancies of a mixed cluster and of the bounds of a super cluster.
\<close>

definition wellFormedOffsets :: "burstNetwork \<Rightarrow> nat \<Rightarrow> bool" where
  "wellFormedOffsets net n \<longleftrightarrow>
     distinct (map fst (mixedClusters net))
     \<and> distinct (map fst (vClusters net)) \<and> distinct (map snd (vClusters net))
     \<and> (\<forall>i \<in> set (heOffsets net) \<union> set (dOffsets net) \<union> set (tOffsets net)
              \<union> fst ` set (mixedClusters net) \<union> vOffsets net
              \<union> (\<Union>c \<in> set (superClusters net). superOffsets c). i < n)
     \<and> vOffsets net \<inter> (set (heOffsets net) \<union> set (dOffsets net) \<union> set (tOffsets net)
              \<union> fst ` set (mixedClusters net)
              \<union> (\<Union>c \<in> set (superClusters net). superOffsets c)) = {}
     \<and> fst ` set (mixedClusters net)
           \<inter> (set (heOffsets net) \<union> set (dOffsets net) \<union> set (tOffsets net)) = {}
     \<and> (\<forall>m \<in> set (mixedClusters net). snd m \<in> fst ` set (vClusters net))
     \<and> (\<forall>c \<in> set (superClusters net). \<forall>j \<in> set [fst (sVBounds c)..<snd (sVBounds c)].
            j \<in> fst ` set (vClusters net))"

text \<open>What the bursting leaves at a grid point: \<open>g\<close> is the row before, \<open>g'\<close> after.\<close>

definition burstPost :: "burstNetwork \<Rightarrow> real list \<Rightarrow> real list \<Rightarrow> bool" where
  "burstPost net g g' \<longleftrightarrow>
     length g' = length g
     \<and> (\<forall>i \<in> set (heOffsets net) \<union> set (dOffsets net) \<union> set (tOffsets net). g' ! i = 0)
     \<and> (\<forall>v \<in> set (vClusters net).
           g' ! snd v = g ! snd v + mixedInto net (mixedClusters net) g (fst v)
                          + superInto net (superClusters net) g (fst v))
     \<and> (\<forall>c \<in> set (superClusters net). \<forall>i \<in> superOffsets c. g' ! i = 0)"

section \<open>Modified trap mutation\<close>

text \<open>
  Modelled from the spec: the trap-mutation handler (\<^verbatim>\<open>TrapMutationHandler\<close> and its material
  subclasses such as \<^verbatim>\<open>W110TrapMutationHandler\<close>) is not among the sources; only its
  regression test and its caller \<^verbatim>\<open>computeDiagonalJacobian\<close> are. The specification
  gives a handler that holds, for each helium cluster size \<open>s\<close> from \<open>1\<close> to
  \<open>S_max\<close> and each depth bucket, the preferred number of vacancies of the product
  (\<open>0\<close>: no rule), and one rate \<open>k_tm\<close>; the first \<open>M\<close> grid points beyond the
  surface each map to one bucket, deeper points have no trap mutation; a product cluster
  missing from the network is skipped.
\<close>

record trapMutationHandler =
  tmSurfacePos :: nat
  sMax :: nat
  nBuckets :: nat
  vacancyRule :: "nat \<Rightarrow> nat \<Rightarrow> nat"
  kMutation :: real

text \<open>
  What the handler reads of the network: the offset of the helium cluster of a size, of the
  helium-vacancy cluster of a composition, and of the single interstitial.
\<close>

record trapMutationNetwork =
  heOffset :: "nat \<Rightarrow> nat option"
  heVOffset :: "nat \<Rightarrow> nat \<Rightarrow> nat option"
  interstitialOffset :: nat

definition depthBucket :: "trapMutationHandler \<Rightarrow> nat \<Rightarrow> nat option" where
  "depthBucket tm xi =
     (if tmSurfacePos tm < xi \<and> xi \<le> tmSurfacePos tm + nBuckets tm
      then Some (xi - tmSurfacePos tm - 1) else None)"

text \<open>The pair of offsets (He, HeV) of a helium size that mutates in a bucket, if any.\<close>

definition mutatingPair ::
  "trapMutationHandler \<Rightarrow> trapMutationNetwork \<Rightarrow> nat \<Rightarrow> nat \<Rightarrow> (nat \<times> nat) option" where
  "mutatingPair tm net bucket s =
     (if vacancyRule tm s bucket = 0 then None
      else case heOffset net s of
             None \<Rightarrow> None
           | Some he \<Rightarrow>
               (case heVOffset net s (vacancyRule tm s bucket) of
                  None \<Rightarrow> None
                | Some heV \<Rightarrow> Some (he, heV)))"

definition mutatingPairs ::
  "trapMutationHandler \<Rightarrow> trapMutationNetwork \<Rightarrow> nat \<Rightarrow> (nat \<times> nat) list" where
  "mutatingPairs tm net xi =
     (case depthBucket tm xi of
        None \<Rightarrow> []
      | Some bucket \<Rightarrow> List.map_filter (mutatingPair tm net bucket) [1..<Suc (sMax tm)])"

text \<open>
  \<open>computeTrapMutation\<close>: for each mutating pair add \<open>- k_tm * C(He_s)\<close> to
  \<open>out[He_s]\<close> and \<open>+ k_tm * C(He_s)\<close> to both \<open>out[HeV_{s,v}]\<close> and \<open>out[I]\<close>.
\<close>

definition trapMutationStep ::
  "trapMutationHandler \<Rightarrow> trapMutationNetwork \<Rightarrow> real list \<Rightarrow> nat \<times> nat \<Rightarrow> real list \<Rightarrow> real list" where
  "trapMutationStep tm net concOffset = (\<lambda>(he, heV) out.
     let rate = kMutation tm * concOffset ! he;
         out1 = out[he := out ! he - rate];
         out2 = out1[heV := out1 ! heV + rate]
     in out2[interstitialOffset net := out2 ! interstitialOffset net + rate])"

definition computeTrapMutationSpec ::
  "trapMutationHandler \<Rightarrow> trapMutationNetwork \<Rightarrow> nat \<Rightarrow> real list \<Rightarrow> real list \<Rightarrow> real list" where
  "computeTrapMutationSpec tm net xi concOffset updatedConcOffset =
     fold (trapMutationStep tm net concOffset) (mutatingPairs tm net xi) updatedConcOffset"

text \<open>
  \<open>computePartialsForTrapMutation\<close>: per mutating pair three values \<open>- k_tm\<close>,
  \<open>+ k_tm\<close>, \<open>+ k_tm\<close> and three indices (He, HeV, I); the result is the array of
  values, the array of indices and the number of mutating clusters.
\<close>

definition computePartialsForTrapMutation ::
  "trapMutationHandler \<Rightarrow> trapMutationNetwork \<Rightarrow> nat \<Rightarrow> real list \<times> nat list \<times> nat" where
  "computePartialsForTrapMutation tm net xi =
     (let pairs = mutatingPairs tm net xi
      in (concat (map (\<lambda>p. [- kMutation tm, kMutation tm, kMutation tm]) pairs),
          concat (map (\<lambda>(he, heV). [he, heV, interstitialOffset net]) pairs),
          length pairs))"

text \<open>
  The part of \<^verbatim>\<open>computeDiagonalJacobian\<close> (PetscSolver1DHandler.cpp) that takes care of the
  trap mutation at the grid point \<open>xi\<close>: the three calls of \<^verbatim>\<open>MatSetValuesStencil\<close> for
  each mutating cluster, each as the row (grid point, component), the column and the value
  added.
\<close>

type_synonym stencilEntry = "(nat \<times> nat) \<times> (nat \<times> nat) \<times> real"

definition trapMutationStamps :: "nat \<Rightarrow> real list \<Rightarrow> nat list \<Rightarrow> nat \<Rightarrow> stencilEntry list" where
  "trapMutationStamps xi mutationVals mutationIndices nMutating =
     concat (map (\<lambda>i.
        [((xi, mutationIndices ! (3 * i)), (xi, mutationIndices ! (3 * i)), mutationVals ! (3 * i)),
         ((xi, mutationIndices ! (3 * i + 1)), (xi, mutationIndices ! (3 * i)),
            mutationVals ! (3 * i + 1)),
         ((xi, mutationIndices ! (3 * i + 2)), (xi, mutationIndices ! (3 * i)),
            mutationVals ! (3 * i + 2))])
       [0..<nMutating])"

definition trapMutationJacobian ::
  "trapMutationHandler \<Rightarrow> trapMutationNetwork \<Rightarrow> nat \<Rightarrow> stencilEntry list" where
  "trapMutationJacobian tm net xi =
     (case computePartialsForTrapMutation tm net xi of
        (mutationVals, mutationIndices, nMutating) \<Rightarrow>
          trapMutationStamps xi mutationVals mutationIndices nMutating)"

section \<open>Concrete inputs\<close>

text \<open>
  A small instance of the residual loop: four grid points, two degrees of freedom, the surface
  at grid point \<open>0\<close>, a temperature handler that returns 1000 K everywhere, a flux handler
  that implants at grid point \<open>2\<close>, no diffusion, advection or trap mutation, and a
  network whose clusters decay with rate one. The state of the network is its temperature and
  its concentrations.
\<close>

definition exCol :: "(real \<times> real list, unit) collaborators" where
  "exCol = \<lparr>getTemperature = (\<lambda>x t. 1000),
            getIncidentFluxVec = (\<lambda>t sp. [0, 0, 5, 0]),
            getHeliumId = (\<lambda>n. Some 1),
            networkSize = (\<lambda>n. 2),
            setTemperature = (\<lambda>T n. (T, snd n)),
            updateTrapMutationRate = (\<lambda>n m. m),
            updateConcentrationsFromArray = (\<lambda>c n. (fst n, c)),
            computeDiffusion = (\<lambda>n cv u hl hr. u),
            computeAdvection = (\<lambda>n h d cv u. u),
            computeTrapMutation = (\<lambda>m n xi c u. u),
            getTotalFlux = (\<lambda>n i. - (snd n ! i)),
            getId = (\<lambda>n i. i + 1)\<rparr>"

definition exHandler :: "real \<Rightarrow> (real \<times> real list, unit) solverHandler" where
  "exHandler T0 = \<lparr>grid = [0, 1, 2, 3], surfacePosition = 0, lastTemperature = T0,
                   network = (0, []), mutationHandler = (), setTemperatureCalls = 0\<rparr>"

definition exConcs :: "real list list" where
  "exConcs = [[1, 2], [3, 4], [5, 6], [7, 8]]"

definition exZero :: "real list list" where
  "exZero = [[0, 0], [0, 0], [0, 0], [0, 0]]"

text \<open>
  An instance of the event functions: the surface at grid point \<open>0\<close>, a uniform grid, both
  the moving surface and the bursting enabled, one interstitial cluster, no helium flux; the
  helium density of a grid point is its first concentration. \<open>exNonuniformEnv\<close> has the
  surface at grid point \<open>1\<close> and a grid whose first interval beyond \<open>x[1]\<close> is half as
  wide as the others.
\<close>

definition exEnv :: eventEnv where
  "exEnv = \<lparr>moveSurface = True, burstBubbles = True, getSurfacePosition = 0,
            getXGrid = [0, 1, 2, 3, 4, 5], getInitialVConc = 0, getFluxAmplitude = 0,
            getTauBursting = 1,
            interstitials = [\<lparr>iOffset = 1, iSize = 1, getDiffusionCoefficient = (\<lambda>i. 1)\<rparr>],
            getTotalAtomConcentration = (\<lambda>row. row ! 0),
            getRandomDouble = (\<lambda>k. 1 / 2), previousTime = 0, sputteringYield1D = 0,
            tungstenLatticeConstant = 317 / 1000\<rparr>"

definition exController :: controller where
  "exController = \<lparr>nInterstitial1D = 100, previousIFlux1D = 0, depthPositions1D = [],
                   randomDraws = 0, surfaceOffset = None, convergedUser = False\<rparr>"

definition exSolution :: "real list list" where
  "exSolution = [[4, 0], [0, 0], [0, 0], [0, 0]]"

definition exNonuniformEnv :: eventEnv where
  "exNonuniformEnv = exEnv\<lparr>burstBubbles := False, getSurfacePosition := 1,
                           getXGrid := [0, 1, 3 / 2, 5 / 2, 7 / 2, 9 / 2]\<rparr>"

definition exBurstNetwork :: burstNetwork where
  "exBurstNetwork = \<lparr>heOffsets = [0], dOffsets = [], tOffsets = [], mixedClusters = [],
                     superClusters = [], vClusters = [],
                     getIntegratedVConcentration = (\<lambda>c loaded j. 0)\<rparr>"

text \<open>
  A network with one helium cluster (offset 0), the vacancy clusters of sizes 1 and 2 (offsets 1
  and 2), one mixed cluster with one vacancy (offset 3) and one super cluster (offsets 4 to 7)
  that covers one and two vacancies.
\<close>

definition exMixedNetwork :: burstNetwork where
  "exMixedNetwork = \<lparr>heOffsets = [0], dOffsets = [], tOffsets = [],
      mixedClusters = [(3, 1)],
      superClusters = [\<lparr>sOffset = 4, sMomentOffset = (\<lambda>m. 4 + m), sVBounds = (1, 3)\<rparr>],
      vClusters = [(1, 1), (2, 2)],
      getIntegratedVConcentration = (\<lambda>c loaded j. loaded ! sOffset c * real j)\<rparr>"

definition exBurstSolution :: "real list list" where
  "exBurstSolution = [[4, 1, 2, 8, 16, 0, 0, 0], [1, 1, 1, 1, 1, 1, 1, 1]]"

text \<open>
  A trap-mutation handler with two helium sizes that both mutate at the first grid point beyond
  the surface.
\<close>

definition exTrapHandler :: trapMutationHandler where
  "exTrapHandler = \<lparr>tmSurfacePos = 0, sMax = 2, nBuckets = 1, vacancyRule = (\<lambda>s bucket. 1),
                    kMutation = 2\<rparr>"

definition exTrapNetwork :: trapMutationNetwork where
  "exTrapNetwork = \<lparr>heOffset = (\<lambda>s. if 1 \<le> s \<and> s \<le> 2 then Some (s - 1) else None),
                    heVOffset = (\<lambda>s v. if 1 \<le> s \<and> s \<le> 2 \<and> v = 1 then Some (s + 1) else None),
                    interstitialOffset = 4\<rparr>"

section \<open>Properties\<close>

subsection \<open>Loops over array entries\<close>

lemma length_updateEach [simp]: "length (updateEach f is a) = length a"
  unfolding updateEach_def by (induction "is" arbitrary: a) simp_all

lemma nth_updateEach:
  "distinct is \<Longrightarrow> j < length a \<Longrightarrow>
   updateEach f is a ! j = (if j \<in> set is then f j (a ! j) else a ! j)"
  unfolding updateEach_def
proof (induction "is" arbitrary: a)
  case Nil
  then show ?case by simp
next
  case (Cons i rest)
  have len: "j < length (a[i := f i (a ! i)])" using Cons.prems by simp
  have d: "distinct rest" and ni: "i \<notin> set rest" using Cons.prems by simp_all
  show ?case
  proof (cases "j = i")
    case True
    then show ?thesis using Cons.IH [OF d len] ni Cons.prems by simp
  next
    case False
    then show ?thesis using Cons.IH [OF d len] by simp
  qed
qed

subsection \<open>Super-cluster reconstruction\<close>

text \<open>
  Claim C9. For every PSISuperCluster and every lattice point \<open>(he, v)\<close>, the reconstructed
  concentration \<open>getConcentration (getHeDistance he) (getVDistance v)\<close> equals
  \<open>l0 + d_He(he) * l1He + d_V(v) * l1V\<close> with the distance of the specification, and at
  the mean of both axes it is \<open>l0\<close>, whatever \<open>l0\<close>, \<open>l1He\<close>, \<open>l1V\<close> and the widths are.
\<close>

theorem C9_reconstruction:
  "getConcentration c (getHeDistance c he) (getVDistance c v)
     = l0 c + spec_d_axis (numHe c) (sectionHeWidth c) he * l1He c
            + spec_d_axis (numV c) (sectionVWidth c) v * l1V c
   \<and> (real_of_int he = numHe c \<longrightarrow> real_of_int v = numV c \<longrightarrow>
        getConcentration c (getHeDistance c he) (getVDistance c v) = l0 c)"
  by (simp add: getConcentration_def getHeDistance_def getVDistance_def spec_d_axis_def)

theorem C9_reconstruction_witness:
  "isIn \<lparr>numHe = 5, numV = 2, nTot = 3, sectionHeWidth = 3, sectionVWidth = 1,
         heBounds = (4, 7), vBounds = (2, 3), l0 = 7, l1He = 3, l1V = 11\<rparr> 5 2
   \<and> real_of_int 5 = numHe \<lparr>numHe = 5, numV = 2, nTot = 3, sectionHeWidth = 3, sectionVWidth = 1,
         heBounds = (4, 7), vBounds = (2, 3), l0 = 7, l1He = 3, l1V = 11\<rparr>
   \<and> getConcentration \<lparr>numHe = 5, numV = 2, nTot = 3, sectionHeWidth = 3, sectionVWidth = 1,
         heBounds = (4, 7), vBounds = (2, 3), l0 = 7, l1He = 3, l1V = 11\<rparr>
       (getHeDistance \<lparr>numHe = 5, numV = 2, nTot = 3, sectionHeWidth = 3, sectionVWidth = 1,
         heBounds = (4, 7), vBounds = (2, 3), l0 = 7, l1He = 3, l1V = 11\<rparr> 5)
       (getVDistance \<lparr>numHe = 5, numV = 2, nTot = 3, sectionHeWidth = 3, sectionVWidth = 1,
         heBounds = (4, 7), vBounds = (2, 3), l0 = 7, l1He = 3, l1V = 11\<rparr> 2) = 7"
  using C9_reconstruction [of "\<lparr>numHe = 5, numV = 2, nTot = 3, sectionHeWidth = 3,
         sectionVWidth = 1, heBounds = (4, 7), vBounds = (2, 3), l0 = 7, l1He = 3, l1V = 11\<rparr>" 5 2]
  by (simp add: isIn_def contains_def)

subsection \<open>The negative-concentration monitor\<close>

lemma clampEntry_cases:
  "clampEntry thr x = (if x \<noteq> 0 \<and> \<bar>x\<bar> < thr then sgn x * thr else x)"
  by (auto simp: clampEntry_def sgn_if)

lemma checkNegative1D_nth:
  assumes "i < length sol" and "l < length (sol ! i)"
  shows "fst (checkNegative1D thr nClusters xs xm sol) ! i ! l =
           (if xs \<le> i \<and> i < xs + xm \<and> l < nClusters then clampEntry thr (sol ! i ! l)
            else sol ! i ! l)"
  using assms by (simp add: checkNegative1D_def nth_updateEach)

text \<open>
  Claim C10, as the claim states it, fails on an entry that is exactly zero: its magnitude is
  below the default threshold, and the monitor leaves it at zero (both tests of the loop are
  strict comparisons with \<open>0.0\<close>).
\<close>

theorem C10_zero_entry_counterexample:
  "\<bar>[[0::real]] ! 0 ! 0\<bar> < setupNegThreshold None
   \<and> fst (checkNegative1D (setupNegThreshold None) 1 0 1 [[0]]) ! 0 ! 0 \<noteq> setupNegThreshold None
   \<and> fst (checkNegative1D (setupNegThreshold None) 1 0 1 [[0]]) ! 0 ! 0 \<noteq> - setupNegThreshold None
   \<and> fst (checkNegative1D (setupNegThreshold None) 1 0 1 [[0]]) ! 0 ! 0 = 0"
  by (simp add: checkNegative1D_def updateEach_def clampEntry_def setupNegThreshold_def)

text \<open>
  Claim C10, amended. After one pass of the monitor over the local grid, every nonzero entry of
  the first \<open>nClusters\<close> concentrations of a local grid point whose magnitude is below the
  threshold equals the threshold with the sign of its previous value; every other entry, an
  entry that is exactly zero included, is unchanged; the monitor returns the error code \<open>0\<close>;
  and the threshold is \<open>1e-30\<close> when the option carries no value.
\<close>

theorem C10_clamp:
  assumes "i < length sol" and "l < length (sol ! i)"
  shows "fst (checkNegative1D thr nClusters xs xm sol) ! i ! l =
           (if xs \<le> i \<and> i < xs + xm \<and> l < nClusters
               \<and> sol ! i ! l \<noteq> 0 \<and> \<bar>sol ! i ! l\<bar> < thr
            then sgn (sol ! i ! l) * thr else sol ! i ! l)
         \<and> snd (checkNegative1D thr nClusters xs xm sol) = 0
         \<and> setupNegThreshold None = 1 / 10 ^ 30
         \<and> setupNegThreshold (Some thr) = thr"
  using assms
  by (simp add: checkNegative1D_nth clampEntry_cases)
     (simp add: checkNegative1D_def setupNegThreshold_def)

theorem C10_clamp_witness:
  "fst (checkNegative1D (1 / 2) 2 0 1 [[- 1 / 4, 0, 1 / 4], [1 / 4]]) ! 0 ! 0 = - (1 / 2)
   \<and> fst (checkNegative1D (1 / 2) 2 0 1 [[- 1 / 4, 0, 1 / 4], [1 / 4]]) ! 0 ! 1 = 0
   \<and> fst (checkNegative1D (1 / 2) 2 0 1 [[- 1 / 4, 0, 1 / 4], [1 / 4]]) ! 0 ! 2 = 1 / 4
   \<and> fst (checkNegative1D (1 / 2) 2 0 1 [[- 1 / 4, 0, 1 / 4], [1 / 4]]) ! 1 ! 0 = 1 / 4"
  using C10_clamp [of 0 "[[- 1 / 4, 0, 1 / 4], [1 / 4]]" 0 "1 / 2" 2 0 1]
        C10_clamp [of 0 "[[- 1 / 4, 0, 1 / 4], [1 / 4]]" 1 "1 / 2" 2 0 1]
        C10_clamp [of 0 "[[- 1 / 4, 0, 1 / 4], [1 / 4]]" 2 "1 / 2" 2 0 1]
        C10_clamp [of 1 "[[- 1 / 4, 0, 1 / 4], [1 / 4]]" 0 "1 / 2" 2 0 1]
  by simp

subsection \<open>The residual loop\<close>

lemmas ex_residual_defs = updateConcentration_def updateConcentrationAt_def exCol_def
  exHandler_def exConcs_def exZero_def isBoundary_def equal_def updateEach_def Let_def
  upt_conv_Cons

lemma updateConcentrationAt_handler_const:
  "grid (fst (updateConcentrationAt col ftime ifv hi dof concs xi p)) = grid (fst p)
   \<and> surfacePosition (fst (updateConcentrationAt col ftime ifv hi dof concs xi p)) = surfacePosition (fst p)"
  by (cases p) (simp add: updateConcentrationAt_def Let_def)

lemma updateConcentrationAt_other_row:
  "j \<noteq> xi \<Longrightarrow> snd (updateConcentrationAt col ftime ifv hi dof concs xi p) ! j = snd p ! j"
  by (cases p) (simp add: updateConcentrationAt_def Let_def)

lemma updateConcentrationAt_length:
  "length (snd (updateConcentrationAt col ftime ifv hi dof concs xi p)) = length (snd p)"
  by (cases p) (simp add: updateConcentrationAt_def Let_def)

lemma fold_updateConcentrationAt_const:
  "grid (fst (fold (updateConcentrationAt col ftime ifv hi dof concs) is p)) = grid (fst p)
   \<and> surfacePosition (fst (fold (updateConcentrationAt col ftime ifv hi dof concs) is p)) = surfacePosition (fst p)
   \<and> length (snd (fold (updateConcentrationAt col ftime ifv hi dof concs) is p)) = length (snd p)"
  by (induction "is" arbitrary: p)
     (simp_all add: updateConcentrationAt_handler_const updateConcentrationAt_length)

lemma fold_updateConcentrationAt_other_row:
  "j \<notin> set is \<Longrightarrow>
   snd (fold (updateConcentrationAt col ftime ifv hi dof concs) is p) ! j = snd p ! j"
  by (induction "is" arbitrary: p) (simp_all add: updateConcentrationAt_other_row)

lemma updateConcentrationAt_boundary_row:
  assumes "isBoundary (fst p) xi" and "xi < length (snd p)" and "i < dof" and "i < length (snd p ! xi)"
  shows "snd (updateConcentrationAt col ftime ifv hi dof concs xi p) ! xi ! i = concs ! xi ! i"
  using assms by (cases p) (simp add: updateConcentrationAt_def Let_def nth_updateEach)

lemma isBoundary_cong:
  "grid sh' = grid sh \<Longrightarrow> surfacePosition sh' = surfacePosition sh \<Longrightarrow> isBoundary sh' xi = isBoundary sh xi"
  by (simp add: isBoundary_def)


lemma upt_split_at: "xs \<le> xi \<Longrightarrow> xi < n \<Longrightarrow> [xs..<n] = [xs..<xi] @ xi # [Suc xi..<n]"
  by (metis le_Suc_ex less_imp_le_nat upt_add_eq_append upt_conv_Cons)


text \<open>
  Claim C3. For every residual evaluation by \<open>updateConcentration\<close> and every local grid
  point \<open>xi\<close> with \<open>xi \<le> surfacePos\<close> or \<open>xi = Mx - 1\<close>, the residual row at
  \<open>xi\<close> equals the concentration row at \<open>xi\<close> in each of the \<open>dof\<close> components.
  The collaborators are arbitrary, so no flux, diffusion, advection, trap-mutation or reaction
  term enters the row.
\<close>

theorem C3_boundary_rows:
  assumes he: "getHeliumId col (network sh) \<noteq> None"
    and loc: "xs \<le> xi" "xi < xs + xm"
    and bnd: "xi \<le> surfacePosition sh \<or> int xi = int (length (grid sh)) - 1"
    and rng: "xi < length updatedConcs" "i < networkSize col (network sh)" "i < length (updatedConcs ! xi)"
  shows "\<exists>sh' F. updateConcentration col xs xm ftime concs (sh, updatedConcs) = Some (sh', F)
           \<and> F ! xi ! i = concs ! xi ! i"
proof -
  obtain heId where heId: "getHeliumId col (network sh) = Some heId" using he by auto
  define step where "step = updateConcentrationAt col ftime
      (getIncidentFluxVec col ftime (surfacePosition sh)) (heId - 1) (networkSize col (network sh)) concs"
  define p1 where "p1 = fold step [xs..<xi] (sh, updatedConcs)"
  define p2 where "p2 = step xi p1"
  have res0: "updateConcentration col xs xm ftime concs (sh, updatedConcs)
               = Some (fold step [xs..<xs + xm] (sh, updatedConcs))"
    by (simp add: updateConcentration_def heId step_def Let_def)
  have "fold step [xs..<xs + xm] (sh, updatedConcs) = fold step [Suc xi..<xs + xm] p2"
    unfolding p2_def p1_def by (subst upt_split_at [OF loc]) simp
  with res0 have res: "updateConcentration col xs xm ftime concs (sh, updatedConcs)
               = Some (fold step [Suc xi..<xs + xm] p2)" by simp
  have c1: "grid (fst p1) = grid sh" "surfacePosition (fst p1) = surfacePosition sh"
           "length (snd p1) = length updatedConcs"
    using fold_updateConcentrationAt_const [of col ftime _ _ _ concs "[xs..<xi]" "(sh, updatedConcs)"]
    by (simp_all add: p1_def step_def)
  have r1: "snd p1 ! xi = updatedConcs ! xi"
    using fold_updateConcentrationAt_other_row [of xi "[xs..<xi]" col ftime _ _ _ concs "(sh, updatedConcs)"]
    by (simp add: p1_def step_def)
  have b1: "isBoundary (fst p1) xi"
    using bnd c1 by (simp add: isBoundary_def)
  have r2: "snd p2 ! xi ! i = concs ! xi ! i"
    unfolding p2_def step_def
    by (rule updateConcentrationAt_boundary_row) (use b1 c1 r1 rng in simp_all)
  have r3: "snd (fold step [Suc xi..<xs + xm] p2) ! xi = snd p2 ! xi"
    unfolding step_def by (rule fold_updateConcentrationAt_other_row) simp
  show ?thesis
    using res r2 r3 by (cases "fold step [Suc xi..<xs + xm] p2") simp
qed


theorem C3_boundary_rows_witness:
  "\<exists>sh' F. updateConcentration exCol 0 4 0 exConcs (exHandler 0, exZero) = Some (sh', F)
      \<and> F ! 3 ! 1 = 8 \<and> exConcs ! 3 ! 1 = 8"
  using C3_boundary_rows [of exCol "exHandler 0" 0 3 4 exZero 1 0 exConcs]
  by (simp add: exCol_def exHandler_def exConcs_def exZero_def)

lemma updateConcentrationAt_calls:
  "setTemperatureCalls (fst (updateConcentrationAt col ftime ifv hi dof concs xi (sh, F))) =
     setTemperatureCalls sh +
       (if \<not> isBoundary sh xi \<and> \<not> equal (getTemperature col (grid sh ! xi) ftime) (lastTemperature sh)
        then 1 else 0)
   \<and> lastTemperature (fst (updateConcentrationAt col ftime ifv hi dof concs xi (sh, F))) =
       (if \<not> isBoundary sh xi \<and> \<not> equal (getTemperature col (grid sh ! xi) ftime) (lastTemperature sh)
        then getTemperature col (grid sh ! xi) ftime else lastTemperature sh)"
  by (simp add: updateConcentrationAt_def Let_def)

lemma equal_refl: "equal T T"
  by (simp add: equal_def)

lemma fold_calls_equal:
  assumes "\<forall>x. getTemperature col x ftime = T" and "equal T (lastTemperature (fst p))"
  shows "setTemperatureCalls (fst (fold (updateConcentrationAt col ftime ifv hi dof concs) is p))
           = setTemperatureCalls (fst p)
         \<and> lastTemperature (fst (fold (updateConcentrationAt col ftime ifv hi dof concs) is p))
           = lastTemperature (fst p)"
  using assms(2)
proof (induction "is" arbitrary: p)
  case Nil
  then show ?case by simp
next
  case (Cons xi rest)
  obtain sh F where p: "p = (sh, F)" by (cases p)
  let ?q = "updateConcentrationAt col ftime ifv hi dof concs xi p"
  have q: "setTemperatureCalls (fst ?q) = setTemperatureCalls sh"
          "lastTemperature (fst ?q) = lastTemperature sh"
    using updateConcentrationAt_calls [of col ftime ifv hi dof concs xi sh F] Cons.prems assms(1)
    by (simp_all add: p)
  then have "equal T (lastTemperature (fst ?q))" using Cons.prems by (simp add: p)
  from Cons.IH [OF this] q show ?case by (simp add: p)
qed

lemma fold_calls_changed:
  assumes "\<forall>x. getTemperature col x ftime = T" and "\<not> equal T (lastTemperature (fst p))"
  shows "setTemperatureCalls (fst (fold (updateConcentrationAt col ftime ifv hi dof concs) is p))
           = setTemperatureCalls (fst p) + (if list_ex (\<lambda>xi. \<not> isBoundary (fst p) xi) is then 1 else 0)"
  using assms(2)
proof (induction "is" arbitrary: p)
  case Nil
  then show ?case by simp
next
  case (Cons xi rest)
  obtain sh F where p: "p = (sh, F)" by (cases p)
  let ?q = "updateConcentrationAt col ftime ifv hi dof concs xi p"
  have cst: "grid (fst ?q) = grid sh" "surfacePosition (fst ?q) = surfacePosition sh"
    using updateConcentrationAt_handler_const [of col ftime ifv hi dof concs xi p] by (simp_all add: p)
  have bq: "\<And>j. isBoundary (fst ?q) j = isBoundary sh j"
    using cst by (simp add: isBoundary_def)
  show ?case
  proof (cases "isBoundary sh xi")
    case True
    have q: "setTemperatureCalls (fst ?q) = setTemperatureCalls sh"
            "lastTemperature (fst ?q) = lastTemperature sh"
      using updateConcentrationAt_calls [of col ftime ifv hi dof concs xi sh F] True
      by (simp_all add: p)
    then have "\<not> equal T (lastTemperature (fst ?q))" using Cons.prems by (simp add: p)
    from Cons.IH [OF this] q True bq show ?thesis by (simp add: p)
  next
    case False
    have q: "setTemperatureCalls (fst ?q) = setTemperatureCalls sh + 1"
            "lastTemperature (fst ?q) = T"
      using updateConcentrationAt_calls [of col ftime ifv hi dof concs xi sh F] False Cons.prems assms(1)
      by (simp_all add: p)
    then have "equal T (lastTemperature (fst ?q))" by (simp add: equal_refl)
    from fold_calls_equal [OF assms(1) this, of ifv hi dof concs rest] q False
    show ?thesis by (simp add: p)
  qed
qed

text \<open>
  Claim C4, as the claim states it, fails when the cached temperature already is the uniform
  temperature of the pass (the second residual evaluation at one temperature, say): the two
  interior grid points of the instance see 1000 K, the cache holds 1000 K, and
  \<open>setTemperature\<close> is not called at all.
\<close>

theorem C4_cached_temperature_counterexample:
  "\<not> isBoundary (exHandler 1000) 1 \<and> \<not> isBoundary (exHandler 1000) 2
   \<and> getTemperature exCol (grid (exHandler 1000) ! 1) 0 = 1000
   \<and> getTemperature exCol (grid (exHandler 1000) ! 2) 0 = 1000
   \<and> map_option (\<lambda>r. setTemperatureCalls (fst r))
        (updateConcentration exCol 0 4 0 exConcs (exHandler 1000, exZero)) = Some 0
   \<and> setTemperatureCalls (exHandler 1000) = 0"
  by (simp add: ex_residual_defs)

text \<open>
  Claim C4, amended. During one \<open>updateConcentration\<close> pass in which the temperature
  handler returns a spatially uniform temperature, \<open>setTemperature\<close> (with
  \<open>updateTrapMutationRate\<close>) is called at most once: exactly once when the cached last
  temperature differs from it by more than the tolerance and the local grid has an interior
  point, and not at all otherwise. At any grid point and for any temperature field, a
  temperature equal to the cached one to within the tolerance leaves the call count, the
  cached temperature and the trap-mutation handler as they are.
\<close>

theorem C4_setTemperature_calls:
  assumes uni: "\<forall>x. getTemperature col x ftime = T"
    and he: "getHeliumId col (network sh) \<noteq> None"
  shows "(\<exists>sh' F. updateConcentration col xs xm ftime concs (sh, updatedConcs) = Some (sh', F)
           \<and> setTemperatureCalls sh' = setTemperatureCalls sh +
                (if \<not> equal T (lastTemperature sh) \<and> list_ex (\<lambda>xi. \<not> isBoundary sh xi) [xs..<xs + xm]
                 then 1 else 0)
           \<and> setTemperatureCalls sh' \<le> setTemperatureCalls sh + 1
           \<and> (\<bar>T - lastTemperature sh\<bar> \<le> 1 / 10 ^ 12 \<longrightarrow> setTemperatureCalls sh' = setTemperatureCalls sh))
         \<and> (\<bar>getTemperature col (grid sh0 ! xi) ftime - lastTemperature sh0\<bar> \<le> 1 / 10 ^ 12 \<longrightarrow>
              setTemperatureCalls (fst (updateConcentrationAt col ftime ifv hi dof concs0 xi (sh0, F0)))
                = setTemperatureCalls sh0
              \<and> lastTemperature (fst (updateConcentrationAt col ftime ifv hi dof concs0 xi (sh0, F0)))
                = lastTemperature sh0
              \<and> mutationHandler (fst (updateConcentrationAt col ftime ifv hi dof concs0 xi (sh0, F0)))
                = mutationHandler sh0)"
proof -
  obtain heId where heId: "getHeliumId col (network sh) = Some heId" using he by auto
  define step where "step = updateConcentrationAt col ftime
      (getIncidentFluxVec col ftime (surfacePosition sh)) (heId - 1) (networkSize col (network sh)) concs"
  define r where "r = fold step [xs..<xs + xm] (sh, updatedConcs)"
  have res: "updateConcentration col xs xm ftime concs (sh, updatedConcs) = Some r"
    by (simp add: updateConcentration_def heId step_def r_def Let_def)
  have cnt: "setTemperatureCalls (fst r) = setTemperatureCalls sh +
                (if \<not> equal T (lastTemperature sh) \<and> list_ex (\<lambda>xi. \<not> isBoundary sh xi) [xs..<xs + xm]
                 then 1 else 0)"
  proof (cases "equal T (lastTemperature sh)")
    case True
    then show ?thesis
      using fold_calls_equal [OF uni, of "(sh, updatedConcs)"] by (simp add: r_def step_def)
  next
    case False
    then show ?thesis
      using fold_calls_changed [OF uni, of "(sh, updatedConcs)"] by (simp add: r_def step_def)
  qed
  have eq: "\<bar>T - lastTemperature sh\<bar> \<le> 1 / 10 ^ 12 \<Longrightarrow> equal T (lastTemperature sh)"
    by (simp add: equal_def abs_minus_commute)
  have pass: "\<exists>sh' F. updateConcentration col xs xm ftime concs (sh, updatedConcs) = Some (sh', F)
           \<and> setTemperatureCalls sh' = setTemperatureCalls sh +
                (if \<not> equal T (lastTemperature sh) \<and> list_ex (\<lambda>xi. \<not> isBoundary sh xi) [xs..<xs + xm]
                 then 1 else 0)
           \<and> setTemperatureCalls sh' \<le> setTemperatureCalls sh + 1
           \<and> (\<bar>T - lastTemperature sh\<bar> \<le> 1 / 10 ^ 12 \<longrightarrow> setTemperatureCalls sh' = setTemperatureCalls sh)"
    using res cnt eq by (cases r) auto
  have point: "\<bar>getTemperature col (grid sh0 ! xi) ftime - lastTemperature sh0\<bar> \<le> 1 / 10 ^ 12 \<Longrightarrow>
              setTemperatureCalls (fst (updateConcentrationAt col ftime ifv hi dof concs0 xi (sh0, F0)))
                = setTemperatureCalls sh0
              \<and> lastTemperature (fst (updateConcentrationAt col ftime ifv hi dof concs0 xi (sh0, F0)))
                = lastTemperature sh0
              \<and> mutationHandler (fst (updateConcentrationAt col ftime ifv hi dof concs0 xi (sh0, F0)))
                = mutationHandler sh0"
    by (simp add: updateConcentrationAt_def Let_def equal_def abs_minus_commute)
  show ?thesis
    using pass point by blast
qed


theorem C4_setTemperature_calls_witness:
  "(\<exists>sh' F. updateConcentration exCol 0 4 0 exConcs (exHandler 0, exZero) = Some (sh', F)
      \<and> setTemperatureCalls sh' = 1)
   \<and> \<bar>getTemperature exCol (grid (exHandler 1000) ! 1) 0 - lastTemperature (exHandler 1000)\<bar>
        \<le> 1 / 10 ^ 12
   \<and> setTemperatureCalls (fst (updateConcentrationAt exCol 0 [0, 0, 5, 0] 0 2 exConcs 1
        (exHandler 1000, exZero))) = 0"
  using C4_setTemperature_calls [where col = exCol and ftime = 0 and T = 1000
      and sh = "exHandler 0" and xs = 0 and xm = 4 and concs = exConcs and updatedConcs = exZero
      and ?sh0.0 = "exHandler 1000" and xi = 1 and ifv = "[0, 0, 5, 0]" and hi = 0 and dof = 2
      and ?concs0.0 = exConcs and ?F0.0 = exZero]
  by (simp add: exCol_def exHandler_def equal_def isBoundary_def upt_conv_Cons) blast

subsection \<open>The event function\<close>

lemma burstingAt_keeps:
  "nInterstitial1D (snd (burstingAt env dt xs xm sol xi p)) = nInterstitial1D (snd p)
   \<and> previousIFlux1D (snd (burstingAt env dt xs xm sol xi p)) = previousIFlux1D (snd p)"
  by (cases p) (simp add: burstingAt_def Let_def)

lemma fold_burstingAt_keeps:
  "nInterstitial1D (snd (fold (burstingAt env dt xs xm sol) is p)) = nInterstitial1D (snd p)
   \<and> previousIFlux1D (snd (fold (burstingAt env dt xs xm sol) is p)) = previousIFlux1D (snd p)"
  by (induction "is" arbitrary: p) (simp_all add: burstingAt_keeps)

lemma burstingEvent_keeps:
  assumes "length (fst p) = 3"
  shows "fst (burstingEvent env time xs xm Mx sol p) ! 0 = fst p ! 0
       \<and> fst (burstingEvent env time xs xm Mx sol p) ! 1 = fst p ! 1
       \<and> nInterstitial1D (snd (burstingEvent env time xs xm Mx sol p)) = nInterstitial1D (snd p)"
proof -
  obtain fvalue st where p: "p = (fvalue, st)" by (cases p)
  obtain burst st1 where f: "fold (burstingAt env (time - previousTime env) xs xm sol) [0..<Mx] (False, st) = (burst, st1)"
    by (cases "fold (burstingAt env (time - previousTime env) xs xm sol) [0..<Mx] (False, st)")
  have "nInterstitial1D st1 = nInterstitial1D st"
    using fold_burstingAt_keeps [of env "time - previousTime env" xs xm sol "[0..<Mx]" "(False, st)"] f
    by simp
  then show ?thesis
    by (simp add: burstingEvent_def p f Let_def)
qed

lemma surfaceEvent_switches:
  "fst (surfaceEvent env time xs xm sol ([1, 1, 1], st)) =
     (if nInterstitial1D (snd (surfaceEvent env time xs xm sol ([1, 1, 1], st)))
           > densityThreshold (getInitialVConc env) (getXGrid env) (getSurfacePosition env + 1)
      then [0, 1, 1]
      else if nInterstitial1D (snd (surfaceEvent env time xs xm sol ([1, 1, 1], st)))
           < - densityThreshold (getInitialVConc env) (getXGrid env) (getSurfacePosition env + 1) / 10
      then [1, 0, 1] else [1, 1, 1])"
  by (simp add: surfaceEvent_def Let_def)

lemma surfaceEvent_nInterstitial:
  "nInterstitial1D (snd (surfaceEvent env time xs xm sol (fv, st))) =
     (if xs \<le> getSurfacePosition env + 1 \<and> getSurfacePosition env + 1 < xs + xm
      then nInterstitial1D st + previousIFlux1D st * (time - previousTime env)
             - sputteringYield1D env * getFluxAmplitude env * (time - previousTime env)
      else nInterstitial1D st)"
  by (auto simp: surfaceEvent_def Let_def)

lemma surfaceEvent_length:
  "length (fst (surfaceEvent env time xs xm sol (fv, st))) = length fv"
  by (simp add: surfaceEvent_def Let_def)

text \<open>
  Claim C5. For every evaluation of the event function with surface movement enabled, the
  switch \<open>fvalue[0]\<close> is zero if and only if \<open>nInterstitial\<close> exceeds the threshold
  \<open>(62.8 - v_init) * (x[xi + 1] - x[xi])\<close> at the first interior point
  \<open>xi = surfacePos + 1\<close>, the switch \<open>fvalue[1]\<close> is zero if and only if
  \<open>nInterstitial\<close> does not exceed the threshold and is below minus a tenth of it, and a
  switch that is not zero is one. \<open>nInterstitial\<close> is the value after the update of this
  evaluation, which the last conjunct gives.
\<close>

theorem C5_surface_switches:
  assumes "moveSurface env"
  shows "(fst (eventFunction1D env time xs xm Mx sol st) ! 0 = 0 \<longleftrightarrow>
            nInterstitial1D (snd (eventFunction1D env time xs xm Mx sol st))
              > (62.8 - getInitialVConc env)
                  * (getXGrid env ! (getSurfacePosition env + 2) - getXGrid env ! (getSurfacePosition env + 1)))
       \<and> (fst (eventFunction1D env time xs xm Mx sol st) ! 1 = 0 \<longleftrightarrow>
            \<not> nInterstitial1D (snd (eventFunction1D env time xs xm Mx sol st))
              > (62.8 - getInitialVConc env)
                  * (getXGrid env ! (getSurfacePosition env + 2) - getXGrid env ! (getSurfacePosition env + 1))
            \<and> nInterstitial1D (snd (eventFunction1D env time xs xm Mx sol st))
              < - ((62.8 - getInitialVConc env)
                  * (getXGrid env ! (getSurfacePosition env + 2) - getXGrid env ! (getSurfacePosition env + 1))) / 10)
       \<and> (fst (eventFunction1D env time xs xm Mx sol st) ! 0 \<noteq> 0 \<longrightarrow>
            fst (eventFunction1D env time xs xm Mx sol st) ! 0 = 1)
       \<and> (fst (eventFunction1D env time xs xm Mx sol st) ! 1 \<noteq> 0 \<longrightarrow>
            fst (eventFunction1D env time xs xm Mx sol st) ! 1 = 1)
       \<and> nInterstitial1D (snd (eventFunction1D env time xs xm Mx sol st)) =
           (if xs \<le> getSurfacePosition env + 1 \<and> getSurfacePosition env + 1 < xs + xm
            then nInterstitial1D st + previousIFlux1D st * (time - previousTime env)
                   - sputteringYield1D env * getFluxAmplitude env * (time - previousTime env)
            else nInterstitial1D st)"
proof -
  let ?st0 = "st\<lparr>depthPositions1D := []\<rparr>"
  let ?r1 = "surfaceEvent env time xs xm sol ([1, 1, 1], ?st0)"
  let ?r = "eventFunction1D env time xs xm Mx sol st"
  have len: "length (fst ?r1) = 3"
    using surfaceEvent_length [of env time xs xm sol "[1, 1, 1]" ?st0] by simp
  have keep: "fst ?r ! 0 = fst ?r1 ! 0 \<and> fst ?r ! 1 = fst ?r1 ! 1
              \<and> nInterstitial1D (snd ?r) = nInterstitial1D (snd ?r1)"
    using assms burstingEvent_keeps [OF len, of env time xs xm Mx sol]
    by (simp add: eventFunction1D_def Let_def)
  have thr: "densityThreshold (getInitialVConc env) (getXGrid env) (getSurfacePosition env + 1)
              = (62.8 - getInitialVConc env)
                  * (getXGrid env ! (getSurfacePosition env + 2) - getXGrid env ! (getSurfacePosition env + 1))"
    by (simp add: densityThreshold_def)
  have sw: "fst ?r1 =
     (if nInterstitial1D (snd ?r1)
           > densityThreshold (getInitialVConc env) (getXGrid env) (getSurfacePosition env + 1)
      then [0, 1, 1]
      else if nInterstitial1D (snd ?r1)
           < - densityThreshold (getInitialVConc env) (getXGrid env) (getSurfacePosition env + 1) / 10
      then [1, 0, 1] else [1, 1, 1])"
    by (rule surfaceEvent_switches)
  have n: "nInterstitial1D (snd ?r1) =
           (if xs \<le> getSurfacePosition env + 1 \<and> getSurfacePosition env + 1 < xs + xm
            then nInterstitial1D st + previousIFlux1D st * (time - previousTime env)
                   - sputteringYield1D env * getFluxAmplitude env * (time - previousTime env)
            else nInterstitial1D st)"
    using surfaceEvent_nInterstitial [of env time xs xm sol "[1, 1, 1]" ?st0] by simp
  show ?thesis
    unfolding keep [THEN conjunct1] keep [THEN conjunct2, THEN conjunct1]
      keep [THEN conjunct2, THEN conjunct2] thr [symmetric]
    using sw n by (auto split: if_splits)
qed

theorem C5_surface_switches_witness:
  "moveSurface exEnv
   \<and> fst (eventFunction1D exEnv 1 0 4 4 exSolution exController) ! 0 = 0
   \<and> fst (eventFunction1D exEnv 1 0 4 4 exSolution exController) ! 1 = 1
   \<and> nInterstitial1D (snd (eventFunction1D exEnv 1 0 4 4 exSolution exController)) = 100"
  using C5_surface_switches [of exEnv 1 0 4 4 exSolution exController]
  by (simp add: exEnv_def exController_def)

lemma fold_burstingAt_True:
  "fst (fold (burstingAt env dt xs xm sol) is (True, st))"
proof (induction "is" arbitrary: st)
  case Nil
  then show ?case by simp
next
  case (Cons xi rest)
  obtain st' where "burstingAt env dt xs xm sol xi (True, st) = (True, st')"
    by (cases "burstingAt env dt xs xm sol xi (True, st)")
       (auto simp: burstingAt_def Let_def split: if_splits)
  then show ?case using Cons.IH by simp
qed

lemma fold_burstingAt_fires:
  assumes "xi \<in> set is" and "getSurfacePosition env \<le> xi" and "xs \<le> xi" and "xi < xs + xm"
    and "bubbleRadius env (getTotalAtomConcentration env (sol ! xi)) xi
           > getXGrid env ! (xi + 1) - getXGrid env ! (getSurfacePosition env + 1)"
  shows "fst (fold (burstingAt env dt xs xm sol) is (b, st))"
  using assms(1)
proof (induction "is" arbitrary: b st)
  case Nil
  then show ?case by simp
next
  case (Cons y rest)
  obtain b' st' where step: "burstingAt env dt xs xm sol y (b, st) = (b', st')"
    by (cases "burstingAt env dt xs xm sol y (b, st)")
  show ?case
  proof (cases "y = xi")
    case True
    have "b'" using step assms(2-5) True by (auto simp: burstingAt_def Let_def)
    then show ?thesis using step fold_burstingAt_True [of env dt xs xm sol rest st'] by simp
  next
    case False
    then have "xi \<in> set rest" using Cons.prems by simp
    from Cons.IH [OF this] step show ?thesis by simp
  qed
qed

lemma burstingEvent_fires:
  assumes "getSurfacePosition env \<le> xi" and "xs \<le> xi" and "xi < xs + xm" and "xi < Mx"
    and "bubbleRadius env (getTotalAtomConcentration env (sol ! xi)) xi
           > getXGrid env ! (xi + 1) - getXGrid env ! (getSurfacePosition env + 1)"
    and "length (fst p) = 3"
  shows "fst (burstingEvent env time xs xm Mx sol p) ! 2 = 0"
proof -
  obtain fvalue st where p: "p = (fvalue, st)" by (cases p)
  obtain burst st1 where f: "fold (burstingAt env (time - previousTime env) xs xm sol) [0..<Mx] (False, st) = (burst, st1)"
    by (cases "fold (burstingAt env (time - previousTime env) xs xm sol) [0..<Mx] (False, st)")
  have "xi \<in> set [0..<Mx]" using assms(4) by simp
  from fold_burstingAt_fires [OF this assms(1,2,3,5), of "time - previousTime env" False st] f
  have burst by simp
  then show ?thesis using assms(6) by (simp add: burstingEvent_def p f Let_def)
qed

lemma exEnv_radius:
  "bubbleRadius exEnv (getTotalAtomConcentration exEnv (exSolution ! 0)) 0
     > getXGrid exEnv ! (0 + 1) - getXGrid exEnv ! (getSurfacePosition exEnv + 1)"
  by (simp add: bubbleRadius_def exEnv_def exSolution_def Let_def)

lemma exEnv_both_fire:
  "fst (eventFunction1D exEnv 1 0 4 4 exSolution exController) ! 0 = 0
   \<and> fst (eventFunction1D exEnv 1 0 4 4 exSolution exController) ! 2 = 0"
proof -
  let ?st0 = "exController\<lparr>depthPositions1D := []\<rparr>"
  let ?r1 = "surfaceEvent exEnv 1 0 4 exSolution ([1, 1, 1], ?st0)"
  have r1: "fst ?r1 = [0, 1, 1]"
    by (simp add: surfaceEvent_def densityThreshold_def exEnv_def exController_def Let_def)
  have ev: "eventFunction1D exEnv 1 0 4 4 exSolution exController
              = burstingEvent exEnv 1 0 4 4 exSolution ?r1"
    by (simp add: eventFunction1D_def Let_def exEnv_def)
  have len: "length (fst ?r1) = 3" using r1 by simp
  have two: "fst (burstingEvent exEnv 1 0 4 4 exSolution ?r1) ! 2 = 0"
    by (rule burstingEvent_fires [where xi = 0, OF _ _ _ _ exEnv_radius len])
       (simp_all add: exEnv_def)
  have zero: "fst (burstingEvent exEnv 1 0 4 4 exSolution ?r1) ! 0 = 0"
    using burstingEvent_keeps [OF len, of exEnv 1 0 4 4 exSolution] r1 by simp
  show ?thesis using ev two zero by simp
qed

lemma moveUpLoop_uniform:
  "moveUpLoop (314 / 5) 0 [0, 1, 2, 3, 4, 5] (100, 0, 0) = Some (186 / 5, - 1, 1)"
  by (simp add: moveUpLoop.simps)

text \<open>
  Claim C6, as the claim states it, fails: on the instance the surface-advance switch and the
  bursting switch are both zero after one evaluation (the interstitial count exceeds the
  threshold, and the bubble at the surface has a positive radius at distance zero), and the
  post-event function handles the two events of one invocation: it bursts the bubble at depth
  \<open>0\<close> and moves the surface.
\<close>

theorem C6_two_switches_counterexample:
  "fst (eventFunction1D exEnv 1 0 4 4 exSolution exController) ! 0 = 0
   \<and> fst (eventFunction1D exEnv 1 0 4 4 exSolution exController) ! 2 = 0
   \<and> postEventFunction1D exEnv exBurstNetwork 2 [0, 2]
          (exSolution, exController\<lparr>depthPositions1D := [0]\<rparr>)
       = Some (Inr ([[0, 0], [0, 0], [0, 0], [0, 0]],
                 exController\<lparr>depthPositions1D := [0], nInterstitial1D := 186 / 5,
                                surfaceOffset := Some 1, convergedUser := True\<rparr>))"
  using exEnv_both_fire
  by (simp add: postEventFunction1D_def exEnv_def exBurstNetwork_def exSolution_def
        exController_def burstAt_def resetAll_def moveUpLoop_uniform Let_def)

lemma burstingEvent_length:
  "length (fst (burstingEvent env time xs xm Mx sol p)) = length (fst p)"
proof -
  obtain fvalue st where p: "p = (fvalue, st)" by (cases p)
  obtain burst st1 where f: "fold (burstingAt env (time - previousTime env) xs xm sol) [0..<Mx] (False, st) = (burst, st1)"
    by (cases "fold (burstingAt env (time - previousTime env) xs xm sol) [0..<Mx] (False, st)")
  show ?thesis by (simp add: burstingEvent_def p f Let_def)
qed

lemma eventFunction1D_length:
  "length (fst (eventFunction1D env time xs xm Mx sol st)) = 3"
proof -
  let ?st0 = "st\<lparr>depthPositions1D := []\<rparr>"
  let ?r1 = "if moveSurface env then surfaceEvent env time xs xm sol ([1, 1, 1], ?st0)
             else ([1, 1, 1], ?st0)"
  have len: "length (fst ?r1) = 3"
    using surfaceEvent_length [of env time xs xm sol "[1, 1, 1]" ?st0] by simp
  show ?thesis
  proof (cases "burstBubbles env")
    case True
    then have "eventFunction1D env time xs xm Mx sol st = burstingEvent env time xs xm Mx sol ?r1"
      by (simp add: eventFunction1D_def Let_def)
    then show ?thesis using burstingEvent_length [of env time xs xm Mx sol ?r1] len by simp
  next
    case False
    then have "eventFunction1D env time xs xm Mx sol st = ?r1"
      by (simp add: eventFunction1D_def Let_def)
    then show ?thesis using len by simp
  qed
qed

lemma zero_count_three:
  assumes "length (fv :: real list) = 3" and "\<not> (fv ! 0 = 0 \<and> fv ! 1 = 0)"
  shows "length (filter (\<lambda>v. v = 0) fv) \<le> 2"
proof -
  obtain a b c where fv: "fv = [a, b, c]"
    using assms(1) by (auto simp: numeral_3_eq_3 length_Suc_conv)
  show ?thesis using assms(2) by (auto simp: fv)
qed

lemma postEvent_error_iff:
  "postEventFunction1D env net nevents eventList (sol, st) = Some (Inl MovingBothWays)
     \<longleftrightarrow> nevents = 3"
  by (auto simp: postEventFunction1D_def Let_def split: option.splits prod.splits if_splits)

text \<open>
  Claim C6, amended. For every evaluation of the event function the moving-up and the
  moving-down switch are never zero together, so that at most two of the three switches are
  zero (a surface switch and the bursting switch can be); the post-event function raises its
  error that the surface cannot move in both directions if and only if three events are
  reported, so that an invocation with one or two events is never refused for that reason.
\<close>

theorem C6_surface_switches_exclusive:
  "\<not> (fst (eventFunction1D env time xs xm Mx sol st) ! 0 = 0
       \<and> fst (eventFunction1D env time xs xm Mx sol st) ! 1 = 0)
   \<and> length (fst (eventFunction1D env time xs xm Mx sol st)) = 3
   \<and> length (filter (\<lambda>v. v = 0) (fst (eventFunction1D env time xs xm Mx sol st))) \<le> 2
   \<and> (postEventFunction1D env net nevents eventList (sol', st') = Some (Inl MovingBothWays)
        \<longleftrightarrow> nevents = 3)"
proof -
  let ?st0 = "st\<lparr>depthPositions1D := []\<rparr>"
  let ?r1 = "if moveSurface env then surfaceEvent env time xs xm sol ([1, 1, 1], ?st0)
             else ([1, 1, 1], ?st0)"
  let ?r = "eventFunction1D env time xs xm Mx sol st"
  have one: "fst ?r1 ! 0 \<noteq> 0 \<or> fst ?r1 ! 1 \<noteq> 0"
    using surfaceEvent_switches [of env time xs xm sol ?st0] by (auto split: if_splits)
  have len: "length (fst ?r1) = 3"
    using surfaceEvent_length [of env time xs xm sol "[1, 1, 1]" ?st0] by simp
  have keep: "fst ?r ! 0 = fst ?r1 ! 0 \<and> fst ?r ! 1 = fst ?r1 ! 1"
  proof (cases "burstBubbles env")
    case True
    then have "?r = burstingEvent env time xs xm Mx sol ?r1"
      by (simp add: eventFunction1D_def Let_def)
    then show ?thesis using burstingEvent_keeps [OF len, of env time xs xm Mx sol] by simp
  next
    case False
    then have "?r = ?r1" by (simp add: eventFunction1D_def Let_def)
    then show ?thesis by simp
  qed
  have excl: "\<not> (fst ?r ! 0 = 0 \<and> fst ?r ! 1 = 0)" using one keep by simp
  have l3: "length (fst ?r) = 3" by (rule eventFunction1D_length)
  have cnt: "length (filter (\<lambda>v. v = 0) (fst ?r)) \<le> 2"
    using zero_count_three [OF l3 excl] .
  show ?thesis using excl l3 cnt postEvent_error_iff [of env net nevents eventList sol' st'] by simp
qed

theorem C6_surface_switches_exclusive_witness:
  "fst (eventFunction1D exEnv 1 0 4 4 exSolution exController) ! 1 \<noteq> 0
   \<and> length (filter (\<lambda>v. v = 0) (fst (eventFunction1D exEnv 1 0 4 4 exSolution exController))) \<le> 2
   \<and> postEventFunction1D exEnv exBurstNetwork 3 [0, 1, 2] (exSolution, exController)
       = Some (Inl MovingBothWays)
   \<and> postEventFunction1D exEnv exBurstNetwork 2 [0, 2]
          (exSolution, exController\<lparr>depthPositions1D := [0]\<rparr>)
       \<noteq> Some (Inl MovingBothWays)"
  using C6_surface_switches_exclusive [where env = exEnv and time = 1 and xs = 0 and xm = 4 and Mx = 4
          and sol = exSolution and st = exController and net = exBurstNetwork and nevents = 3
          and eventList = "[0, 1, 2]" and sol' = exSolution and st' = exController]
        C6_surface_switches_exclusive [where env = exEnv and time = 1 and xs = 0 and xm = 4 and Mx = 4
          and sol = exSolution and st = exController and net = exBurstNetwork and nevents = 2
          and eventList = "[0, 2]" and sol' = exSolution
          and st' = "exController\<lparr>depthPositions1D := [0]\<rparr>"]
        exEnv_both_fire
  by simp

subsection \<open>Moving the surface up\<close>

text \<open>
  With a positive threshold the moving-up loop of the code terminates, and its result does not
  depend on the grid: the threshold it uses is the one computed before the loop.
\<close>

lemma moveUpLoop_bounded:
  "0 < threshold \<Longrightarrow> n \<le> threshold * real m \<Longrightarrow>
   \<exists>r. moveUpLoop threshold v g (n, sp, k) = Some r"
proof (induction m arbitrary: n sp k)
  case 0
  then have "\<not> n > threshold" by simp
  then show ?case by (simp add: moveUpLoop.simps)
next
  case (Suc m)
  show ?case
  proof (cases "n > threshold")
    case False
    then show ?thesis by (simp add: moveUpLoop.simps)
  next
    case True
    have "n - threshold \<le> threshold * real m"
      using Suc.prems(2) by (simp add: algebra_simps)
    from Suc.IH [OF Suc.prems(1) this] obtain r where
      "moveUpLoop threshold v g (n - threshold, sp - 1, k + 1) = Some r" by blast
    then have "moveUpLoop threshold v g (n, sp, k) = Some r"
      using True by (subst moveUpLoop.simps) (simp add: Let_def)
    then show ?thesis by blast
  qed
qed

lemma moveUpLoop_terminates:
  assumes "0 < threshold"
  shows "\<exists>r. moveUpLoop threshold v g (n, sp, k) = Some r"
proof -
  obtain m :: nat where "n / threshold \<le> real m" using real_arch_simple by blast
  then have "n \<le> threshold * real m" using assms by (simp add: pos_divide_le_eq mult.commute)
  from moveUpLoop_bounded [OF assms this] show ?thesis .
qed


lemma moveUpLoop_grid_bounded:
  "0 < threshold \<Longrightarrow> n \<le> threshold * real m \<Longrightarrow>
   moveUpLoop threshold v g (n, sp, k) = moveUpLoop threshold v g' (n, sp, k)"
proof (induction m arbitrary: n sp k)
  case 0
  then have "\<not> n > threshold" by simp
  then show ?case by (simp add: moveUpLoop.simps)
next
  case (Suc m)
  show ?case
  proof (cases "n > threshold")
    case False
    then show ?thesis by (simp add: moveUpLoop.simps)
  next
    case True
    have le: "n - threshold \<le> threshold * real m"
      using Suc.prems(2) by (simp add: algebra_simps)
    have "moveUpLoop threshold v g (n, sp, k)
            = moveUpLoop threshold v g (n - threshold, sp - 1, k + 1)"
      using True by (subst moveUpLoop.simps) (simp add: Let_def)
    also have "\<dots> = moveUpLoop threshold v g' (n - threshold, sp - 1, k + 1)"
      by (rule Suc.IH [OF Suc.prems(1) le])
    also have "\<dots> = moveUpLoop threshold v g' (n, sp, k)"
      using True by (subst (2) moveUpLoop.simps) (simp add: Let_def)
    finally show ?thesis .
  qed
qed

lemma moveUpLoop_ignores_grid:
  assumes "0 < threshold"
  shows "moveUpLoop threshold v g (n, sp, k) = moveUpLoop threshold v g' (n, sp, k)"
proof -
  obtain m :: nat where "n / threshold \<le> real m" using real_arch_simple by blast
  then have "n \<le> threshold * real m" using assms by (simp add: pos_divide_le_eq mult.commute)
  from moveUpLoop_grid_bounded [OF assms this] show ?thesis .
qed

lemma moveUp_code:
  "moveUpLoop (314 / 5) 0 [0, 1, 3 / 2, 5 / 2, 7 / 2, 9 / 2] (100, 1, 0) = Some (186 / 5, 0, 1)"
  by (simp add: moveUpLoop.simps)

lemma moveUp_spec:
  "spec_moveUpLoop 0 [0, 1, 3 / 2, 5 / 2, 7 / 2, 9 / 2] (314 / 5, 100, 1, 0) = Some (314 / 5, 29 / 5, - 1, 2)"
  by (simp add: spec_moveUpLoop.simps)

text \<open>
  Claim C7 does not hold of the code: the loop never updates the threshold it tests and
  subtracts. On the grid \<open>0, 1, 1.5, 2.5, 3.5, 4.5\<close> with the surface at grid point
  \<open>1\<close>, no initial vacancies and \<open>nInterstitial = 100\<close>, the threshold before the loop
  is \<open>62.8\<close>; the code crosses one grid point and stops at \<open>nInterstitial = 37.2\<close>,
  although the threshold of the next interval is \<open>31.4\<close>, and neither sets the surface
  offset nor stops the solver. With the threshold recomputed at each step, as the claim says,
  the loop crosses two grid points, the surface index becomes \<open>- 1\<close> and
  \<open>nInterstitial\<close> ends at \<open>5.8\<close>.
\<close>

theorem C7_threshold_not_updated:
  "postEventFunction1D exNonuniformEnv exBurstNetwork 1 [0] (exSolution, exController)
     = Some (Inr (exSolution, exController\<lparr>nInterstitial1D := 372 / 10\<rparr>))
   \<and> moveUpLoop (densityThreshold 0 (getXGrid exNonuniformEnv) 2) 0 (getXGrid exNonuniformEnv) (100, 1, 0)
       = Some (372 / 10, 0, 1)
   \<and> spec_moveUpLoop 0 (getXGrid exNonuniformEnv)
        (densityThreshold 0 (getXGrid exNonuniformEnv) 2, 100, 1, 0)
       = Some (densityThreshold 0 (getXGrid exNonuniformEnv) 0, 58 / 10, - 1, 2)
   \<and> 372 / 10 > densityThreshold 0 (getXGrid exNonuniformEnv) 1"
  by (simp add: postEventFunction1D_def exNonuniformEnv_def exEnv_def exBurstNetwork_def
        exController_def densityThreshold_def moveUp_code moveUp_spec Let_def)

subsection \<open>Bursting\<close>

lemma length_resetAll [simp]: "length (resetAll ids g) = length g"
  unfolding resetAll_def by (induction ids arbitrary: g) simp_all

lemma nth_resetAll:
  "j < length g \<Longrightarrow> resetAll ids g ! j = (if j \<in> set ids then 0 else g ! j)"
  unfolding resetAll_def
proof (induction ids arbitrary: g)
  case Nil
  then show ?case by simp
next
  case (Cons i rest)
  have "j < length (g[i := 0])" using Cons.prems by simp
  from Cons.IH [OF this] Cons.prems show ?case by (simp add: nth_list_update)
qed

lemma getV_in_vOffsets: "getV net n = Some vid \<Longrightarrow> vid \<in> vOffsets net"
  unfolding getV_def vOffsets_def by (metis map_of_SomeD snd_conv image_eqI)

lemma getV_iff:
  assumes "distinct (map fst (vClusters net))" and "distinct (map snd (vClusters net))"
    and "(k, vid) \<in> set (vClusters net)"
  shows "getV net n = Some vid \<longleftrightarrow> n = k"
proof
  assume "getV net n = Some vid"
  then have "(n, vid) \<in> set (vClusters net)" unfolding getV_def by (rule map_of_SomeD)
  with assms(2,3) show "n = k"
    by (metis (no_types, lifting) distinct_map inj_on_def snd_conv fst_conv)
next
  assume "n = k"
  then show "getV net n = Some vid" using assms(1,3) unfolding getV_def by simp
qed

lemma getV_exists:
  assumes "distinct (map fst (vClusters net))" and "n \<in> fst ` set (vClusters net)"
  shows "\<exists>vid. getV net n = Some vid \<and> vid \<in> vOffsets net"
proof -
  obtain vid where "(n, vid) \<in> set (vClusters net)" using assms(2) by auto
  then have "getV net n = Some vid" using assms(1) by (simp add: getV_def)
  then show ?thesis using getV_in_vOffsets by blast
qed

lemma sum_list_cong:
  "(\<And>x. x \<in> set xs \<Longrightarrow> f x = h x) \<Longrightarrow> sum_list (map f xs) = sum_list (map h xs)"
  by (induction xs) simp_all

lemma sum_list_all_zero:
  "(\<And>x. x \<in> set xs \<Longrightarrow> f x = (0::real)) \<Longrightarrow> sum_list (map f xs) = 0"
  by (induction xs) simp_all

lemma transferMixed_nth:
  assumes "distinct (map fst ms)"
    and "\<And>cid nV. (cid, nV) \<in> set ms \<Longrightarrow>
           cid < length g \<and> cid \<notin> vOffsets net \<and> (\<exists>vid. getV net nV = Some vid \<and> vid < length g)"
  shows "\<exists>g'. transferMixed net ms g = Some g' \<and> length g' = length g \<and>
           (\<forall>j < length g. g' ! j =
              (if j \<in> fst ` set ms then 0
               else g ! j + (\<Sum>(cid, nV)\<leftarrow>ms. if getV net nV = Some j then g ! cid else 0)))"
  using assms
proof (induction ms arbitrary: g)
  case Nil
  then show ?case by simp
next
  case (Cons m rest)
  obtain cid nV where m: "m = (cid, nV)" by (cases m)
  have hd: "cid < length g" "cid \<notin> vOffsets net"
    using Cons.prems(2) [of cid nV] by (simp_all add: m)
  obtain vid where vid: "getV net nV = Some vid" "vid < length g"
    using Cons.prems(2) [of cid nV] by (auto simp: m)
  have vv: "vid \<in> vOffsets net" using vid(1) by (rule getV_in_vOffsets)
  have ne: "vid \<noteq> cid" using vv hd(2) by auto
  define g1 where "g1 = (g[vid := g ! vid + g ! cid])[cid := 0]"
  have len1: "length g1 = length g" by (simp add: g1_def)
  have d: "distinct (map fst rest)" and nin: "cid \<notin> fst ` set rest"
    using Cons.prems(1) by (simp_all add: m)
  have restp: "\<And>c n. (c, n) \<in> set rest \<Longrightarrow>
           c < length g1 \<and> c \<notin> vOffsets net \<and> (\<exists>v. getV net n = Some v \<and> v < length g1)"
  proof -
    fix c n assume "(c, n) \<in> set rest"
    then have "(c, n) \<in> set (m # rest)" by simp
    from Cons.prems(2) [OF this] show
      "c < length g1 \<and> c \<notin> vOffsets net \<and> (\<exists>v. getV net n = Some v \<and> v < length g1)"
      by (simp add: len1)
  qed
  from Cons.IH [OF d restp] obtain g' where
    g': "transferMixed net rest g1 = Some g'" "length g' = length g1"
      "\<forall>j < length g1. g' ! j =
          (if j \<in> fst ` set rest then 0
           else g1 ! j + (\<Sum>(c, n)\<leftarrow>rest. if getV net n = Some j then g1 ! c else 0))"
    by blast
  have same: "\<And>c n. (c, n) \<in> set rest \<Longrightarrow> g1 ! c = g ! c"
  proof -
    fix c n assume cn: "(c, n) \<in> set rest"
    then have "c \<noteq> cid" using nin by force
    moreover have "c \<noteq> vid" using Cons.prems(2) [of c n] cn vv by auto
    ultimately show "g1 ! c = g ! c" by (simp add: g1_def)
  qed
  have sums: "\<And>j. (\<Sum>(c, n)\<leftarrow>rest. if getV net n = Some j then g1 ! c else 0)
                  = (\<Sum>(c, n)\<leftarrow>rest. if getV net n = Some j then g ! c else 0)"
    by (rule sum_list_cong) (auto simp: same)
  have zero: "(\<Sum>(c, n)\<leftarrow>rest. if getV net n = Some cid then g ! c else 0) = 0"
    by (rule sum_list_all_zero) (use hd(2) getV_in_vOffsets in auto)
  have res: "transferMixed net (m # rest) g = Some g'"
    by (simp add: m vid(1) g'(1) [unfolded g1_def])
  have nth: "\<forall>j < length g. g' ! j =
              (if j \<in> fst ` set (m # rest) then 0
               else g ! j + (\<Sum>(c, n)\<leftarrow>(m # rest). if getV net n = Some j then g ! c else 0))"
  proof (intro allI impI)
    fix j assume j: "j < length g"
    then have gj: "g' ! j =
          (if j \<in> fst ` set rest then 0
           else g1 ! j + (\<Sum>(c, n)\<leftarrow>rest. if getV net n = Some j then g ! c else 0))"
      using g'(3) len1 sums by simp
    show "g' ! j =
              (if j \<in> fst ` set (m # rest) then 0
               else g ! j + (\<Sum>(c, n)\<leftarrow>(m # rest). if getV net n = Some j then g ! c else 0))"
    proof (cases "j = cid")
      case True
      then show ?thesis using gj nin zero hd(1) by (simp add: m g1_def)
    next
      case False
      note jc = this
      show ?thesis
      proof (cases "j = vid")
        case True
        then show ?thesis using gj jc ne vid j by (simp add: m g1_def)
      next
        case False
        then show ?thesis using gj jc vid j by (simp add: m g1_def)
      qed
    qed
  qed
  show ?case using res nth g'(2) len1 by simp
qed

lemma addIntegratedV_nth:
  assumes "\<And>j. j \<in> set js \<Longrightarrow> \<exists>vid. getV net j = Some vid \<and> vid < length g"
  shows "\<exists>g'. addIntegratedV net c loaded js g = Some g' \<and> length g' = length g \<and>
           (\<forall>i < length g. g' ! i =
              g ! i + (\<Sum>j\<leftarrow>js. if getV net j = Some i
                                then getIntegratedVConcentration net c loaded j else 0))"
  using assms
proof (induction js arbitrary: g)
  case Nil
  then show ?case by simp
next
  case (Cons j rest)
  obtain vid where vid: "getV net j = Some vid" "vid < length g"
    using Cons.prems [of j] by auto
  define g1 where "g1 = g[vid := g ! vid + getIntegratedVConcentration net c loaded j]"
  have len1: "length g1 = length g" by (simp add: g1_def)
  have restp: "\<And>k. k \<in> set rest \<Longrightarrow> \<exists>v. getV net k = Some v \<and> v < length g1"
    using Cons.prems len1 by simp
  from Cons.IH [OF restp] obtain g' where
    g': "addIntegratedV net c loaded rest g1 = Some g'" "length g' = length g1"
      "\<forall>i < length g1. g' ! i =
          g1 ! i + (\<Sum>k\<leftarrow>rest. if getV net k = Some i
                              then getIntegratedVConcentration net c loaded k else 0)"
    by blast
  have res: "addIntegratedV net c loaded (j # rest) g = Some g'"
    by (simp add: vid(1) g'(1) [unfolded g1_def] Let_def)
  have "\<forall>i < length g. g' ! i =
              g ! i + (\<Sum>k\<leftarrow>(j # rest). if getV net k = Some i
                                then getIntegratedVConcentration net c loaded k else 0)"
    using g'(3) len1 vid by (auto simp: g1_def nth_list_update)
  then show ?case using res g'(2) len1 by simp
qed

lemma transferSuper_nth:
  assumes "\<forall>c \<in> set cs. \<forall>j \<in> set [fst (sVBounds c)..<snd (sVBounds c)].
             \<exists>vid. getV net j = Some vid \<and> vid < length g"
    and "\<forall>c \<in> set cs. superOffsets c \<inter> vOffsets net = {}"
    and "\<forall>c \<in> set cs. \<forall>i \<in> superOffsets c. i < length g"
  shows "\<exists>g'. transferSuper net loaded cs g = Some g' \<and> length g' = length g \<and>
           (\<forall>i < length g. g' ! i =
              (if i \<in> (\<Union>c \<in> set cs. superOffsets c) then 0
               else g ! i + (\<Sum>c\<leftarrow>cs. \<Sum>j\<leftarrow>[fst (sVBounds c)..<snd (sVBounds c)].
                                if getV net j = Some i
                                then getIntegratedVConcentration net c loaded j else 0)))"
  using assms
proof (induction cs arbitrary: g)
  case Nil
  then show ?case by simp
next
  case (Cons c rest)
  let ?js = "[fst (sVBounds c)..<snd (sVBounds c)]"
  have p1: "\<And>j. j \<in> set ?js \<Longrightarrow> \<exists>vid. getV net j = Some vid \<and> vid < length g"
    using Cons.prems(1) by simp
  from addIntegratedV_nth [where c = c and loaded = loaded, OF p1] obtain g1 where
    g1: "addIntegratedV net c loaded ?js g = Some g1" "length g1 = length g"
      "\<forall>i < length g. g1 ! i =
          g ! i + (\<Sum>j\<leftarrow>?js. if getV net j = Some i
                              then getIntegratedVConcentration net c loaded j else 0)"
    by blast
  define g2 where "g2 = g1[sOffset c := 0, sMomentOffset c 0 := 0,
                sMomentOffset c 1 := 0, sMomentOffset c 2 := 0, sMomentOffset c 3 := 0]"
  have g2r: "g2 = resetAll [sOffset c, sMomentOffset c 0, sMomentOffset c 1, sMomentOffset c 2,
                            sMomentOffset c 3] g1"
    by (simp add: g2_def resetAll_def)
  have len2: "length g2 = length g" by (simp add: g2_def g1(2))
  have g2nth: "\<And>i. i < length g \<Longrightarrow> g2 ! i = (if i \<in> superOffsets c then 0 else g1 ! i)"
    unfolding g2r using g1(2) by (simp add: nth_resetAll superOffsets_def)
  have r1: "\<forall>c' \<in> set rest. \<forall>j \<in> set [fst (sVBounds c')..<snd (sVBounds c')].
             \<exists>vid. getV net j = Some vid \<and> vid < length g2"
    using Cons.prems(1) len2 by simp
  have r2: "\<forall>c' \<in> set rest. superOffsets c' \<inter> vOffsets net = {}"
    using Cons.prems(2) by simp
  have r3: "\<forall>c' \<in> set rest. \<forall>i \<in> superOffsets c'. i < length g2"
    using Cons.prems(3) len2 by simp
  from Cons.IH [OF r1 r2 r3] obtain g' where
    g': "transferSuper net loaded rest g2 = Some g'" "length g' = length g2"
      "\<forall>i < length g2. g' ! i =
              (if i \<in> (\<Union>c \<in> set rest. superOffsets c) then 0
               else g2 ! i + (\<Sum>c\<leftarrow>rest. \<Sum>j\<leftarrow>[fst (sVBounds c)..<snd (sVBounds c)].
                                if getV net j = Some i
                                then getIntegratedVConcentration net c loaded j else 0))"
    by blast
  have res: "transferSuper net loaded (c # rest) g = Some g'"
    using g'(1) by (simp add: g1(1) g2_def)
  have notv: "\<And>i. i \<in> superOffsets c \<Longrightarrow> i \<notin> vOffsets net"
    using Cons.prems(2) by auto
  have zsum: "\<And>i cs'. i \<notin> vOffsets net \<Longrightarrow>
       (\<Sum>c\<leftarrow>cs'. \<Sum>j\<leftarrow>[fst (sVBounds c)..<snd (sVBounds c)].
            if getV net j = Some i then getIntegratedVConcentration net c loaded j else 0) = 0"
    by (intro sum_list_all_zero) (auto dest: getV_in_vOffsets)
  have "\<forall>i < length g. g' ! i =
              (if i \<in> (\<Union>c \<in> set (c # rest). superOffsets c) then 0
               else g ! i + (\<Sum>c\<leftarrow>(c # rest). \<Sum>j\<leftarrow>[fst (sVBounds c)..<snd (sVBounds c)].
                                if getV net j = Some i
                                then getIntegratedVConcentration net c loaded j else 0))"
  proof (intro allI impI)
    fix i assume i: "i < length g"
    show "g' ! i =
              (if i \<in> (\<Union>c \<in> set (c # rest). superOffsets c) then 0
               else g ! i + (\<Sum>c\<leftarrow>(c # rest). \<Sum>j\<leftarrow>[fst (sVBounds c)..<snd (sVBounds c)].
                                if getV net j = Some i
                                then getIntegratedVConcentration net c loaded j else 0))"
    proof (cases "i \<in> superOffsets c")
      case True
      then have "i \<notin> vOffsets net" using notv [of i] by simp
      then show ?thesis using g'(3) len2 i g2nth [OF i] True zsum [of i rest] by simp
    next
      case False
      then show ?thesis using g'(3) len2 i g2nth [OF i] g1(3) by (simp add: add.assoc)
    qed
  qed
  then show ?case using res g'(2) len2 by simp
qed

lemma burstAt_post:
  assumes wf: "wellFormedOffsets net (length g)"
  shows "\<exists>g'. burstAt net g = Some g' \<and> burstPost net g g'"
proof -
  let ?n = "length g"
  let ?hdt = "set (heOffsets net) \<union> set (dOffsets net) \<union> set (tOffsets net)"
  let ?mx = "fst ` set (mixedClusters net)"
  let ?sp = "\<Union>c \<in> set (superClusters net). superOffsets c"
  have dm: "distinct (map fst (mixedClusters net))"
    and dv1: "distinct (map fst (vClusters net))" and dv2: "distinct (map snd (vClusters net))"
    and rng: "\<forall>i \<in> ?hdt \<union> ?mx \<union> vOffsets net \<union> ?sp. i < ?n"
    and vdis: "vOffsets net \<inter> (?hdt \<union> ?mx \<union> ?sp) = {}"
    and mdis: "?mx \<inter> ?hdt = {}"
    and mv: "\<forall>m \<in> set (mixedClusters net). snd m \<in> fst ` set (vClusters net)"
    and sv: "\<forall>c \<in> set (superClusters net). \<forall>j \<in> set [fst (sVBounds c)..<snd (sVBounds c)].
            j \<in> fst ` set (vClusters net)"
    using wf unfolding wellFormedOffsets_def by blast+
  define g3 where "g3 = resetAll (tOffsets net) (resetAll (dOffsets net) (resetAll (heOffsets net) g))"
  have len3: "length g3 = ?n" by (simp add: g3_def)
  have g3nth: "\<And>j. j < ?n \<Longrightarrow> g3 ! j = (if j \<in> ?hdt then 0 else g ! j)"
    by (auto simp: g3_def nth_resetAll)
  have mp: "\<And>cid nV. (cid, nV) \<in> set (mixedClusters net) \<Longrightarrow>
           cid < length g3 \<and> cid \<notin> vOffsets net \<and> (\<exists>vid. getV net nV = Some vid \<and> vid < length g3)"
  proof -
    fix cid nV assume m: "(cid, nV) \<in> set (mixedClusters net)"
    then have c: "cid \<in> ?mx" by force
    have "nV \<in> fst ` set (vClusters net)" using mv m by force
    from getV_exists [OF dv1 this] obtain vid where "getV net nV = Some vid" "vid \<in> vOffsets net"
      by blast
    then show "cid < length g3 \<and> cid \<notin> vOffsets net \<and> (\<exists>vid. getV net nV = Some vid \<and> vid < length g3)"
      using c rng vdis len3 by auto
  qed
  from transferMixed_nth [OF dm mp] obtain g4 where
    g4: "transferMixed net (mixedClusters net) g3 = Some g4" "length g4 = length g3"
      "\<forall>j < length g3. g4 ! j =
          (if j \<in> ?mx then 0
           else g3 ! j + (\<Sum>(cid, nV)\<leftarrow>mixedClusters net. if getV net nV = Some j then g3 ! cid else 0))"
    by blast
  have len4: "length g4 = ?n" using g4(2) len3 by simp
  have s1: "\<forall>c \<in> set (superClusters net). \<forall>j \<in> set [fst (sVBounds c)..<snd (sVBounds c)].
             \<exists>vid. getV net j = Some vid \<and> vid < length g4"
  proof (intro ballI)
    fix c j assume "c \<in> set (superClusters net)" "j \<in> set [fst (sVBounds c)..<snd (sVBounds c)]"
    then have "j \<in> fst ` set (vClusters net)" using sv by blast
    from getV_exists [OF dv1 this] show "\<exists>vid. getV net j = Some vid \<and> vid < length g4"
      using rng len4 by auto
  qed
  have s2: "\<forall>c \<in> set (superClusters net). superOffsets c \<inter> vOffsets net = {}"
    using vdis by blast
  have s3: "\<forall>c \<in> set (superClusters net). \<forall>i \<in> superOffsets c. i < length g4"
    using rng len4 by auto
  from transferSuper_nth [OF s1 s2 s3, of g] obtain g5 where
    g5: "transferSuper net g (superClusters net) g4 = Some g5" "length g5 = length g4"
      "\<forall>i < length g4. g5 ! i =
              (if i \<in> ?sp then 0
               else g4 ! i + (\<Sum>c\<leftarrow>superClusters net. \<Sum>j\<leftarrow>[fst (sVBounds c)..<snd (sVBounds c)].
                                if getV net j = Some i
                                then getIntegratedVConcentration net c g j else 0))"
    by blast
  have res: "burstAt net g = Some g5"
    using g4(1) g5(1) by (simp add: burstAt_def g3_def Let_def)
  have zm: "\<And>i. i \<notin> vOffsets net \<Longrightarrow>
      (\<Sum>(cid, nV)\<leftarrow>mixedClusters net. if getV net nV = Some i then g3 ! cid else 0) = 0"
    by (intro sum_list_all_zero) (auto dest: getV_in_vOffsets)
  have zs: "\<And>i. i \<notin> vOffsets net \<Longrightarrow>
      (\<Sum>c\<leftarrow>superClusters net. \<Sum>j\<leftarrow>[fst (sVBounds c)..<snd (sVBounds c)].
           if getV net j = Some i then getIntegratedVConcentration net c g j else 0) = 0"
    by (intro sum_list_all_zero) (auto dest: getV_in_vOffsets)
  have p_hdt: "\<forall>i \<in> ?hdt. g5 ! i = 0"
  proof
    fix i assume i: "i \<in> ?hdt"
    then have iv: "i \<notin> vOffsets net" and il: "i < ?n" using vdis rng by auto
    have "g4 ! i = 0" using g4(3) len3 il g3nth [OF il] i zm [OF iv] by simp
    then show "g5 ! i = 0" using g5(3) len4 il zs [OF iv] by simp
  qed
  have p_sup: "\<forall>c \<in> set (superClusters net). \<forall>i \<in> superOffsets c. g5 ! i = 0"
  proof (intro ballI)
    fix c i assume c: "c \<in> set (superClusters net)" and i: "i \<in> superOffsets c"
    then have "i \<in> ?sp" by blast
    moreover have "i < ?n" using rng c i by auto
    ultimately show "g5 ! i = 0" using g5(3) len4 by simp
  qed
  have p_v: "\<forall>v \<in> set (vClusters net).
           g5 ! snd v = g ! snd v + mixedInto net (mixedClusters net) g (fst v)
                          + superInto net (superClusters net) g (fst v)"
  proof
    fix v assume v: "v \<in> set (vClusters net)"
    obtain k vid where kv: "v = (k, vid)" by (cases v)
    have vin: "vid \<in> vOffsets net" using v kv by (force simp: vOffsets_def)
    then have vl: "vid < ?n" and vn: "vid \<notin> ?hdt" "vid \<notin> ?mx" "vid \<notin> ?sp"
      using rng vdis by auto
    have iff: "\<And>n. getV net n = Some vid \<longleftrightarrow> n = k"
      using getV_iff [OF dv1 dv2] v kv by simp
    have m1: "(\<Sum>(cid, nV)\<leftarrow>mixedClusters net. if getV net nV = Some vid then g3 ! cid else 0)
                = mixedInto net (mixedClusters net) g k"
      unfolding mixedInto_def
    proof (rule sum_list_cong)
      fix x assume x: "x \<in> set (mixedClusters net)"
      obtain cid nV where xc: "x = (cid, nV)" by (cases x)
      have "cid \<in> ?mx" using x xc by force
      then have "cid \<notin> ?hdt" "cid < ?n" using mdis rng by auto
      then have "g3 ! cid = g ! cid" using g3nth [of cid] by simp
      then show "(case x of (cid, nV) \<Rightarrow> if getV net nV = Some vid then g3 ! cid else 0)
                 = (case x of (cid, nV) \<Rightarrow> if nV = k then g ! cid else 0)"
        by (simp add: xc iff)
    qed
    have m2: "(\<Sum>c\<leftarrow>superClusters net. \<Sum>j\<leftarrow>[fst (sVBounds c)..<snd (sVBounds c)].
                 if getV net j = Some vid then getIntegratedVConcentration net c g j else 0)
                = superInto net (superClusters net) g k"
      unfolding superInto_def by (simp add: iff)
    have "g4 ! vid = g ! vid + mixedInto net (mixedClusters net) g k"
      using g4(3) len3 vl vn g3nth [OF vl] m1 by simp
    then have "g5 ! vid = g ! vid + mixedInto net (mixedClusters net) g k
                 + superInto net (superClusters net) g k"
      using g5(3) len4 vl vn m2 by simp
    then show "g5 ! snd v = g ! snd v + mixedInto net (mixedClusters net) g (fst v)
                          + superInto net (superClusters net) g (fst v)"
      by (simp add: kv)
  qed
  have "burstPost net g g5"
    unfolding burstPost_def using p_hdt p_sup p_v g5(2) len4 by simp
  then show ?thesis using res by blast
qed

lemma burstAll_post:
  assumes "distinct ds"
    and "\<forall>d \<in> set ds. d < length sol \<and> wellFormedOffsets net (length (sol ! d))"
  shows "\<exists>sol'. burstAll net ds sol = Some sol' \<and> length sol' = length sol
           \<and> (\<forall>d \<in> set ds. burstPost net (sol ! d) (sol' ! d))
           \<and> (\<forall>i. i \<notin> set ds \<longrightarrow> sol' ! i = sol ! i)"
  using assms
proof (induction ds arbitrary: sol)
  case Nil
  then show ?case by simp
next
  case (Cons d ds)
  have d: "d < length sol" "wellFormedOffsets net (length (sol ! d))" "d \<notin> set ds" "distinct ds"
    using Cons.prems by simp_all
  from burstAt_post [OF d(2)] obtain g' where
    g': "burstAt net (sol ! d) = Some g'" "burstPost net (sol ! d) g'" by blast
  define sol1 where "sol1 = sol[d := g']"
  have same: "\<And>e. e \<in> set ds \<Longrightarrow> sol1 ! e = sol ! e"
  proof -
    fix e assume "e \<in> set ds"
    then have "d \<noteq> e" using d(3) by auto
    then show "sol1 ! e = sol ! e" by (simp add: sol1_def)
  qed
  have p: "\<forall>e \<in> set ds. e < length sol1 \<and> wellFormedOffsets net (length (sol1 ! e))"
    using Cons.prems(2) same by (simp add: sol1_def)
  from Cons.IH [OF d(4) p] obtain sol' where
    s: "burstAll net ds sol1 = Some sol'" "length sol' = length sol1"
       "\<forall>e \<in> set ds. burstPost net (sol1 ! e) (sol' ! e)"
       "\<forall>i. i \<notin> set ds \<longrightarrow> sol' ! i = sol1 ! i"
    by blast
  have res: "burstAll net (d # ds) sol = Some sol'"
    using g'(1) s(1) by (simp add: sol1_def)
  have "sol' ! d = g'" using s(4) d(1,3) by (simp add: sol1_def)
  then have "\<forall>e \<in> set (d # ds). burstPost net (sol ! e) (sol' ! e)"
    using g'(2) s(3) same by simp
  moreover have "\<forall>i. i \<notin> set (d # ds) \<longrightarrow> sol' ! i = sol ! i"
    using s(4) by (simp add: sol1_def)
  ultimately show ?case using res s(2) by (simp add: sol1_def)
qed

lemma burstingAt_depths:
  "depthPositions1D (snd (burstingAt env dt xs xm sol xi p)) = depthPositions1D (snd p)
   \<or> depthPositions1D (snd (burstingAt env dt xs xm sol xi p)) = depthPositions1D (snd p) @ [xi]"
  by (cases p) (simp add: burstingAt_def Let_def)

lemma fold_burstingAt_depths:
  assumes "distinct (depthPositions1D (snd p))" and "\<forall>d \<in> set (depthPositions1D (snd p)). d < a"
  shows "distinct (depthPositions1D (snd (fold (burstingAt env dt xs xm sol) [a..<b] p)))
         \<and> (\<forall>d \<in> set (depthPositions1D (snd (fold (burstingAt env dt xs xm sol) [a..<b] p))).
               d < max a b)"
proof (induction b)
  case 0
  then show ?case using assms by simp
next
  case (Suc b)
  show ?case
  proof (cases "a \<le> b")
    case True
    let ?q = "fold (burstingAt env dt xs xm sol) [a..<b] p"
    have f: "fold (burstingAt env dt xs xm sol) [a..<Suc b] p = burstingAt env dt xs xm sol b ?q"
      using True by simp
    have ih: "distinct (depthPositions1D (snd ?q))" "\<forall>d \<in> set (depthPositions1D (snd ?q)). d < b"
      using Suc True by (simp_all add: max_def)
    show ?thesis
      unfolding f using burstingAt_depths [of env dt xs xm sol b ?q] ih True
      by (auto simp: max_def less_Suc_eq)
  next
    case False
    then show ?thesis using assms by (auto simp: max_def)
  qed
qed

text \<open>
  The depths that the event function records are distinct, which is what the statement about
  the post-event function asks of them.
\<close>

lemma eventFunction1D_depths_distinct:
  "distinct (depthPositions1D (snd (eventFunction1D env time xs xm Mx sol st)))"
proof -
  let ?st0 = "st\<lparr>depthPositions1D := []\<rparr>"
  let ?r1 = "if moveSurface env then surfaceEvent env time xs xm sol ([1, 1, 1], ?st0)
             else ([1, 1, 1], ?st0)"
  have d1: "depthPositions1D (snd ?r1) = []"
    by (simp add: surfaceEvent_def Let_def)
  show ?thesis
  proof (cases "burstBubbles env")
    case False
    then show ?thesis using d1 by (simp add: eventFunction1D_def Let_def)
  next
    case True
    obtain fv st1 where r1: "?r1 = (fv, st1)" by (cases ?r1)
    then have e: "depthPositions1D st1 = []" using d1 by simp
    obtain burst st2 where f: "fold (burstingAt env (time - previousTime env) xs xm sol) [0..<Mx] (False, st1) = (burst, st2)"
      by (cases "fold (burstingAt env (time - previousTime env) xs xm sol) [0..<Mx] (False, st1)")
    have "distinct (depthPositions1D st2)"
      using fold_burstingAt_depths [of "(False, st1)" 0 env "time - previousTime env" xs xm sol Mx] e f
      by simp
    moreover have "snd (eventFunction1D env time xs xm Mx sol st) = st2"
      using True r1 f by (simp add: eventFunction1D_def burstingEvent_def Let_def)
    ultimately show ?thesis by simp
  qed
qed

text \<open>
  Claim C8. After the post-event function has run on a bursting event, at every recorded
  bursting depth every He, D and T concentration is zero, every vacancy concentration is
  increased by the sum of the previous concentrations of the mixed clusters with that number of
  vacancies plus the integrated concentrations of the super clusters at that number, and the
  concentration and the four moments of every super cluster are zero; the rows of all other
  grid points are unchanged. The function returns, and whatever the reported events are, the
  array it returns is this one.
\<close>

theorem C8_bursting_post_event:
  assumes "distinct (depthPositions1D st)"
    and "\<forall>d \<in> set (depthPositions1D st). d < length sol \<and> wellFormedOffsets net (length (sol ! d))"
  shows "\<exists>sol'. postEventFunction1D env net 1 [2] (sol, st) = Some (Inr (sol', st))
           \<and> length sol' = length sol
           \<and> (\<forall>d \<in> set (depthPositions1D st).
                 length (sol' ! d) = length (sol ! d)
               \<and> (\<forall>i \<in> set (heOffsets net) \<union> set (dOffsets net) \<union> set (tOffsets net).
                     sol' ! d ! i = 0)
               \<and> (\<forall>v \<in> set (vClusters net).
                     sol' ! d ! snd v =
                       sol ! d ! snd v
                       + (\<Sum>(cid, nV)\<leftarrow>mixedClusters net. if nV = fst v then sol ! d ! cid else 0)
                       + (\<Sum>c\<leftarrow>superClusters net. \<Sum>j\<leftarrow>[fst (sVBounds c)..<snd (sVBounds c)].
                            if j = fst v then getIntegratedVConcentration net c (sol ! d) j else 0))
               \<and> (\<forall>c \<in> set (superClusters net).
                     sol' ! d ! sOffset c = 0 \<and> sol' ! d ! sMomentOffset c 0 = 0
                     \<and> sol' ! d ! sMomentOffset c 1 = 0 \<and> sol' ! d ! sMomentOffset c 2 = 0
                     \<and> sol' ! d ! sMomentOffset c 3 = 0))
           \<and> (\<forall>i. i \<notin> set (depthPositions1D st) \<longrightarrow> sol' ! i = sol ! i)
           \<and> (\<forall>nevents eventList r st'.
                 postEventFunction1D env net nevents eventList (sol, st) = Some (Inr (r, st'))
                 \<longrightarrow> nevents \<noteq> 0 \<longrightarrow> r = sol')"
proof -
  from burstAll_post [OF assms] obtain sol' where
    s: "burstAll net (depthPositions1D st) sol = Some sol'" "length sol' = length sol"
       "\<forall>d \<in> set (depthPositions1D st). burstPost net (sol ! d) (sol' ! d)"
       "\<forall>i. i \<notin> set (depthPositions1D st) \<longrightarrow> sol' ! i = sol ! i"
    by blast
  have a: "postEventFunction1D env net 1 [2] (sol, st) = Some (Inr (sol', st))"
    using s(1) by (simp add: postEventFunction1D_def Let_def)
  have b: "\<forall>nevents eventList r st'.
                 postEventFunction1D env net nevents eventList (sol, st) = Some (Inr (r, st'))
                 \<longrightarrow> nevents \<noteq> 0 \<longrightarrow> r = sol'"
    using s(1)
    by (auto simp: postEventFunction1D_def Let_def split: if_splits option.splits prod.splits)
  have c: "\<forall>d \<in> set (depthPositions1D st).
                 length (sol' ! d) = length (sol ! d)
               \<and> (\<forall>i \<in> set (heOffsets net) \<union> set (dOffsets net) \<union> set (tOffsets net).
                     sol' ! d ! i = 0)
               \<and> (\<forall>v \<in> set (vClusters net).
                     sol' ! d ! snd v =
                       sol ! d ! snd v
                       + (\<Sum>(cid, nV)\<leftarrow>mixedClusters net. if nV = fst v then sol ! d ! cid else 0)
                       + (\<Sum>c\<leftarrow>superClusters net. \<Sum>j\<leftarrow>[fst (sVBounds c)..<snd (sVBounds c)].
                            if j = fst v then getIntegratedVConcentration net c (sol ! d) j else 0))
               \<and> (\<forall>c \<in> set (superClusters net).
                     sol' ! d ! sOffset c = 0 \<and> sol' ! d ! sMomentOffset c 0 = 0
                     \<and> sol' ! d ! sMomentOffset c 1 = 0 \<and> sol' ! d ! sMomentOffset c 2 = 0
                     \<and> sol' ! d ! sMomentOffset c 3 = 0)"
  proof
    fix d assume "d \<in> set (depthPositions1D st)"
    then have "burstPost net (sol ! d) (sol' ! d)" using s(3) by simp
    then show "length (sol' ! d) = length (sol ! d)
               \<and> (\<forall>i \<in> set (heOffsets net) \<union> set (dOffsets net) \<union> set (tOffsets net).
                     sol' ! d ! i = 0)
               \<and> (\<forall>v \<in> set (vClusters net).
                     sol' ! d ! snd v =
                       sol ! d ! snd v
                       + (\<Sum>(cid, nV)\<leftarrow>mixedClusters net. if nV = fst v then sol ! d ! cid else 0)
                       + (\<Sum>c\<leftarrow>superClusters net. \<Sum>j\<leftarrow>[fst (sVBounds c)..<snd (sVBounds c)].
                            if j = fst v then getIntegratedVConcentration net c (sol ! d) j else 0))
               \<and> (\<forall>c \<in> set (superClusters net).
                     sol' ! d ! sOffset c = 0 \<and> sol' ! d ! sMomentOffset c 0 = 0
                     \<and> sol' ! d ! sMomentOffset c 1 = 0 \<and> sol' ! d ! sMomentOffset c 2 = 0
                     \<and> sol' ! d ! sMomentOffset c 3 = 0)"
      unfolding burstPost_def mixedInto_def superInto_def superOffsets_def by simp
  qed
  show ?thesis using a b c s(2) s(4) by blast
qed

lemma exMixed_wellFormed: "wellFormedOffsets exMixedNetwork 8"
  by (auto simp: wellFormedOffsets_def exMixedNetwork_def vOffsets_def superOffsets_def)

theorem C8_bursting_post_event_witness:
  "postEventFunction1D exEnv exMixedNetwork 1 [2]
      (exBurstSolution, exController\<lparr>depthPositions1D := [0]\<rparr>)
     = Some (Inr ([[0, 25, 34, 0, 0, 0, 0, 0], [1, 1, 1, 1, 1, 1, 1, 1]],
                  exController\<lparr>depthPositions1D := [0]\<rparr>))"
  using C8_bursting_post_event [of "exController\<lparr>depthPositions1D := [0]\<rparr>" exBurstSolution
          exMixedNetwork exEnv]
  by (simp add: exMixed_wellFormed exBurstSolution_def postEventFunction1D_def burstAt_def
        resetAll_def exMixedNetwork_def getV_def Let_def upt_conv_Cons)

subsection \<open>Trap mutation\<close>

lemma exTrap_pairs: "mutatingPairs exTrapHandler exTrapNetwork (Suc 0) = [(0, 2), (Suc 0, 3)]"
  by (simp add: mutatingPairs_def depthBucket_def mutatingPair_def exTrapHandler_def
        exTrapNetwork_def List.map_filter_def upt_conv_Cons)

lemma length_fold_trapMutationStep [simp]:
  "length (fold (trapMutationStep tm net c) ps out) = length out"
  by (induction ps arbitrary: out) (simp_all add: trapMutationStep_def Let_def split: prod.splits)

lemma trapMutationStep_nth:
  "j < length out \<Longrightarrow>
   trapMutationStep tm net c (he, heV) out ! j =
     out ! j + ((if j = he then - (kMutation tm * c ! he) else 0)
              + (if j = heV then kMutation tm * c ! he else 0)
              + (if j = interstitialOffset net then kMutation tm * c ! he else 0))"
  by (simp add: trapMutationStep_def Let_def nth_list_update)

lemma fold_trapMutationStep_nth:
  "j < length out \<Longrightarrow>
   fold (trapMutationStep tm net c) ps out ! j =
     out ! j + (\<Sum>(he, heV)\<leftarrow>ps.
                  (if j = he then - (kMutation tm * c ! he) else 0)
                + (if j = heV then kMutation tm * c ! he else 0)
                + (if j = interstitialOffset net then kMutation tm * c ! he else 0))"
proof (induction ps arbitrary: out)
  case Nil
  then show ?case by simp
next
  case (Cons p ps)
  obtain he heV where p: "p = (he, heV)" by (cases p)
  have len: "j < length (trapMutationStep tm net c (he, heV) out)"
    using Cons.prems by (simp add: trapMutationStep_def Let_def)
  show ?case
    using Cons.IH [OF len] trapMutationStep_nth [OF Cons.prems, of tm net c he heV]
    by (simp add: p add.assoc)
qed

lemma sum_list_single:
  "distinct (map f xs) \<Longrightarrow> x \<in> set xs \<Longrightarrow>
   (\<Sum>y\<leftarrow>xs. if f y = f x then G y else (0::real)) = G x"
proof (induction xs)
  case Nil
  then show ?case by simp
next
  case (Cons y ys)
  show ?case
  proof (cases "x = y")
    case True
    have "f x \<notin> f ` set ys" using Cons.prems(1) True by simp
    then have "\<And>z. z \<in> set ys \<Longrightarrow> f z \<noteq> f x" by (metis imageI)
    then have "(\<Sum>z\<leftarrow>ys. if f z = f x then G z else 0) = 0"
      by (intro sum_list_all_zero) simp
    then show ?thesis using True by simp
  next
    case False
    then have x: "x \<in> set ys" using Cons.prems(2) by simp
    then have "f y \<noteq> f x" using Cons.prems(1) by auto
    then show ?thesis using Cons.IH x Cons.prems(1) by simp
  qed
qed

lemma sum_list_neg: "(\<Sum>x\<leftarrow>xs. - f x) = - (\<Sum>x\<leftarrow>xs. (f x :: real))"
  by (induction xs) simp_all

lemma distinct_offsets:
  assumes "distinct (map fst ps @ map snd ps @ [i])"
  shows "distinct (map fst ps)" and "distinct (map snd ps)"
    and "\<forall>q \<in> set ps. \<forall>q' \<in> set ps. fst q \<noteq> snd q'"
    and "\<forall>q \<in> set ps. fst q \<noteq> i \<and> snd q \<noteq> i"
proof -
  show "distinct (map fst ps)" and "distinct (map snd ps)" using assms by simp_all
  have dis: "fst ` set ps \<inter> snd ` set ps = {}" using assms by simp
  show "\<forall>q \<in> set ps. \<forall>q' \<in> set ps. fst q \<noteq> snd q'"
  proof (intro ballI notI)
    fix q q' assume q: "q \<in> set ps" "q' \<in> set ps" "fst q = snd q'"
    have "fst q \<in> fst ` set ps" using q(1) by (rule imageI)
    moreover have "snd q' \<in> snd ` set ps" using q(2) by (rule imageI)
    ultimately show False using dis q(3) by auto
  qed
  have ni: "i \<notin> fst ` set ps" "i \<notin> snd ` set ps" using assms by simp_all
  show "\<forall>q \<in> set ps. fst q \<noteq> i \<and> snd q \<noteq> i"
  proof (intro ballI)
    fix q assume "q \<in> set ps"
    then have "fst q \<in> fst ` set ps" "snd q \<in> snd ` set ps" by simp_all
    then show "fst q \<noteq> i \<and> snd q \<noteq> i" using ni by metis
  qed
qed

lemma trapMutation_he_row:
  assumes d: "distinct (map fst ps @ map snd ps @ [interstitialOffset net])"
    and p: "p \<in> set ps" and l: "fst p < length out" "snd p < length out"
  shows "fold (trapMutationStep tm net c) ps out ! fst p = out ! fst p - kMutation tm * c ! fst p"
    and "fold (trapMutationStep tm net c) ps out ! snd p = out ! snd p + kMutation tm * c ! fst p"
proof -
  note d1 = distinct_offsets(1) [OF d] and d2 = distinct_offsets(2) [OF d]
    and x1 = distinct_offsets(3) [OF d] and x2 = distinct_offsets(4) [OF d]
  have a: "(\<Sum>q\<leftarrow>ps. if fst q = fst p then - (kMutation tm * c ! fst q) else 0)
             = - (kMutation tm * c ! fst p)"
    using sum_list_single [OF d1 p, of "\<lambda>q. - (kMutation tm * c ! fst q)"] by simp
  have b: "(\<Sum>q\<leftarrow>ps. if snd q = snd p then kMutation tm * c ! fst q else 0)
             = kMutation tm * c ! fst p"
    using sum_list_single [OF d2 p, of "\<lambda>q. kMutation tm * c ! fst q"] by simp
  have e1: "\<And>q. q \<in> set ps \<Longrightarrow>
      (case q of (he, heV) \<Rightarrow>
         (if fst p = he then - (kMutation tm * c ! he) else 0)
       + (if fst p = heV then kMutation tm * c ! he else 0)
       + (if fst p = interstitialOffset net then kMutation tm * c ! he else 0))
      = (if fst q = fst p then - (kMutation tm * c ! fst q) else 0)"
    using x1 x2 p by (force split: prod.splits)
  have e2: "\<And>q. q \<in> set ps \<Longrightarrow>
      (case q of (he, heV) \<Rightarrow>
         (if snd p = he then - (kMutation tm * c ! he) else 0)
       + (if snd p = heV then kMutation tm * c ! he else 0)
       + (if snd p = interstitialOffset net then kMutation tm * c ! he else 0))
      = (if snd q = snd p then kMutation tm * c ! fst q else 0)"
    using x1 x2 p by (force split: prod.splits)
  show "fold (trapMutationStep tm net c) ps out ! fst p = out ! fst p - kMutation tm * c ! fst p"
    using fold_trapMutationStep_nth [OF l(1), of tm net c ps] sum_list_cong [of ps, OF e1] a
    by simp
  show "fold (trapMutationStep tm net c) ps out ! snd p = out ! snd p + kMutation tm * c ! fst p"
    using fold_trapMutationStep_nth [OF l(2), of tm net c ps] sum_list_cong [of ps, OF e2] b
    by simp
qed

lemma trapMutation_i_row:
  assumes d: "distinct (map fst ps @ map snd ps @ [interstitialOffset net])"
    and l: "interstitialOffset net < length out"
  shows "fold (trapMutationStep tm net c) ps out ! interstitialOffset net
           = out ! interstitialOffset net + (\<Sum>q\<leftarrow>ps. kMutation tm * c ! fst q)"
proof -
  note x2 = distinct_offsets(4) [OF d]
  have e: "\<And>q. q \<in> set ps \<Longrightarrow>
      (case q of (he, heV) \<Rightarrow>
         (if interstitialOffset net = he then - (kMutation tm * c ! he) else 0)
       + (if interstitialOffset net = heV then kMutation tm * c ! he else 0)
       + (if interstitialOffset net = interstitialOffset net then kMutation tm * c ! he else 0))
      = kMutation tm * c ! fst q"
    using x2 by (force split: prod.splits)
  show ?thesis
    using fold_trapMutationStep_nth [OF l, of tm net c ps] sum_list_cong [of ps, OF e] by simp
qed

text \<open>
  Claim C1, as the claim states it, fails as soon as two helium sizes mutate at a grid point:
  the interstitial row collects the contribution of each, so it is not the negative of the row
  of one of them. (The regression test expects the same: \<open>out[I] = 2.50525e+21\<close> against
  \<open>out[He3] = -4.16537e+20\<close>.)
\<close>

theorem C1_interstitial_counterexample:
  "computeTrapMutationSpec exTrapHandler exTrapNetwork 1 [3, 5, 0, 0, 0] [0, 0, 0, 0, 0]
     = [- 6, - 10, 6, 10, 16]
   \<and> mutatingPairs exTrapHandler exTrapNetwork 1 = [(0, 2), (1, 3)]
   \<and> interstitialOffset exTrapNetwork = 4
   \<and> computeTrapMutationSpec exTrapHandler exTrapNetwork 1 [3, 5, 0, 0, 0] [0, 0, 0, 0, 0] ! 4
       \<noteq> - (computeTrapMutationSpec exTrapHandler exTrapNetwork 1 [3, 5, 0, 0, 0] [0, 0, 0, 0, 0] ! 0)"
  by (simp add: computeTrapMutationSpec_def exTrap_pairs trapMutationStep_def Let_def)
     (simp add: exTrapHandler_def exTrapNetwork_def)

text \<open>
  Claim C1, amended. For every invocation of \<open>computeTrapMutation\<close> at a grid point with
  the output buffer initially zero (the offsets of the mutating clusters, of their products
  and of the interstitial being distinct and in range), every helium size that mutates has
  \<open>out[He_s] = - k_tm * C(He_s)\<close>, \<open>out[HeV_{s,v}] = + k_tm * C(He_s)\<close> and so
  \<open>out[He_s] + out[HeV_{s,v}] = 0\<close>, and \<open>out[I]\<close> is the negative of the sum of
  \<open>out[He_s]\<close> over the sizes that mutate; it is \<open>- out[He_s]\<close> when one size mutates.
\<close>

theorem C1_trap_mutation_balance:
  assumes d: "distinct (map fst (mutatingPairs tm net xi) @ map snd (mutatingPairs tm net xi)
                        @ [interstitialOffset net])"
    and rng: "\<forall>i \<in> set (map fst (mutatingPairs tm net xi) @ map snd (mutatingPairs tm net xi)
                        @ [interstitialOffset net]). i < length out"
    and zero: "\<forall>i < length out. out ! i = 0"
  shows "(\<forall>p \<in> set (mutatingPairs tm net xi).
            computeTrapMutationSpec tm net xi conc out ! fst p = - (kMutation tm * conc ! fst p)
          \<and> computeTrapMutationSpec tm net xi conc out ! snd p = kMutation tm * conc ! fst p
          \<and> computeTrapMutationSpec tm net xi conc out ! fst p
              + computeTrapMutationSpec tm net xi conc out ! snd p = 0)
       \<and> computeTrapMutationSpec tm net xi conc out ! interstitialOffset net
           = - (\<Sum>p\<leftarrow>mutatingPairs tm net xi. computeTrapMutationSpec tm net xi conc out ! fst p)
       \<and> (length (mutatingPairs tm net xi) = 1 \<longrightarrow>
            computeTrapMutationSpec tm net xi conc out ! interstitialOffset net
              = - (computeTrapMutationSpec tm net xi conc out ! fst (mutatingPairs tm net xi ! 0)))"
proof -
  let ?ps = "mutatingPairs tm net xi"
  let ?r = "computeTrapMutationSpec tm net xi conc out"
  have r: "?r = fold (trapMutationStep tm net conc) ?ps out"
    by (simp add: computeTrapMutationSpec_def)
  have pr: "\<And>p. p \<in> set ?ps \<Longrightarrow>
              ?r ! fst p = - (kMutation tm * conc ! fst p) \<and> ?r ! snd p = kMutation tm * conc ! fst p"
  proof -
    fix p assume p: "p \<in> set ?ps"
    then have l: "fst p < length out" "snd p < length out" using rng by auto
    show "?r ! fst p = - (kMutation tm * conc ! fst p) \<and> ?r ! snd p = kMutation tm * conc ! fst p"
      unfolding r
      using trapMutation_he_row [OF d p l, of tm conc] zero l by simp
  qed
  have li: "interstitialOffset net < length out" using rng by simp
  have "?r ! interstitialOffset net = (\<Sum>q\<leftarrow>?ps. kMutation tm * conc ! fst q)"
    unfolding r using trapMutation_i_row [OF d li, of tm conc] zero li by simp
  also have "\<dots> = (\<Sum>q\<leftarrow>?ps. - (?r ! fst q))"
    by (rule sum_list_cong) (simp add: pr)
  also have "\<dots> = - (\<Sum>q\<leftarrow>?ps. ?r ! fst q)"
    by (rule sum_list_neg)
  finally have ir: "?r ! interstitialOffset net = - (\<Sum>q\<leftarrow>?ps. ?r ! fst q)" .
  have one: "length ?ps = 1 \<Longrightarrow> ?r ! interstitialOffset net = - (?r ! fst (?ps ! 0))"
  proof -
    assume "length ?ps = 1"
    then obtain p where "?ps = [p]" by (cases ?ps) auto
    then show ?thesis using ir by simp
  qed
  show ?thesis using pr ir one by simp
qed

theorem C1_trap_mutation_balance_witness:
  "computeTrapMutationSpec exTrapHandler exTrapNetwork 1 [3, 5, 0, 0, 0] [0, 0, 0, 0, 0] ! 0
     + computeTrapMutationSpec exTrapHandler exTrapNetwork 1 [3, 5, 0, 0, 0] [0, 0, 0, 0, 0] ! 2 = 0
   \<and> computeTrapMutationSpec exTrapHandler exTrapNetwork 1 [3, 5, 0, 0, 0] [0, 0, 0, 0, 0] ! 4
       = - (computeTrapMutationSpec exTrapHandler exTrapNetwork 1 [3, 5, 0, 0, 0] [0, 0, 0, 0, 0] ! 0
            + computeTrapMutationSpec exTrapHandler exTrapNetwork 1 [3, 5, 0, 0, 0] [0, 0, 0, 0, 0] ! 1)"
  using C1_trap_mutation_balance [of exTrapHandler exTrapNetwork 1 "[0, 0, 0, 0, 0]" "[3, 5, 0, 0, 0]"]
  by (simp add: computeTrapMutationSpec_def exTrap_pairs trapMutationStep_def Let_def)
     (simp add: exTrapHandler_def exTrapNetwork_def)

lemma length_concat_triples [simp]:
  "length (concat (map (\<lambda>p. [f p, g p, h p]) ps)) = 3 * length ps"
  by (induction ps) simp_all

lemma concat_triples_nth:
  "m < length ps \<Longrightarrow>
   concat (map (\<lambda>p. [f p, g p, h p]) ps) ! (3 * m) = f (ps ! m)
   \<and> concat (map (\<lambda>p. [f p, g p, h p]) ps) ! (3 * m + 1) = g (ps ! m)
   \<and> concat (map (\<lambda>p. [f p, g p, h p]) ps) ! (3 * m + 2) = h (ps ! m)"
proof (induction ps arbitrary: m)
  case Nil
  then show ?case by simp
next
  case (Cons p ps)
  show ?case
  proof (cases m)
    case 0
    then show ?thesis by simp
  next
    case (Suc k)
    then have k: "k < length ps" using Cons.prems by simp
    have e: "3 * m = Suc (Suc (Suc (3 * k)))" using Suc by simp
    show ?thesis using Cons.IH [OF k] by (simp add: e Suc)
  qed
qed

lemma concat_triples_nth_Suc:
  "m < length ps \<Longrightarrow>
   concat (map (\<lambda>p. [f p, g p, h p]) ps) ! Suc (3 * m) = g (ps ! m)
   \<and> concat (map (\<lambda>p. [f p, g p, h p]) ps) ! Suc (Suc (3 * m)) = h (ps ! m)"
  using concat_triples_nth [of m ps f g h] by simp

lemma trapMutationStamps_pairs:
  "trapMutationStamps xi
      (concat (map (\<lambda>p. [a p, b p, c p]) ps)) (concat (map (\<lambda>p. [f p, g p, h p]) ps)) (length ps)
   = concat (map (\<lambda>p. [((xi, f p), (xi, f p), a p), ((xi, g p), (xi, f p), b p),
                         ((xi, h p), (xi, f p), c p)]) ps)"
proof -
  have "map (\<lambda>i.
        [((xi, concat (map (\<lambda>p. [f p, g p, h p]) ps) ! (3 * i)),
          (xi, concat (map (\<lambda>p. [f p, g p, h p]) ps) ! (3 * i)),
          concat (map (\<lambda>p. [a p, b p, c p]) ps) ! (3 * i)),
         ((xi, concat (map (\<lambda>p. [f p, g p, h p]) ps) ! (3 * i + 1)),
          (xi, concat (map (\<lambda>p. [f p, g p, h p]) ps) ! (3 * i)),
          concat (map (\<lambda>p. [a p, b p, c p]) ps) ! (3 * i + 1)),
         ((xi, concat (map (\<lambda>p. [f p, g p, h p]) ps) ! (3 * i + 2)),
          (xi, concat (map (\<lambda>p. [f p, g p, h p]) ps) ! (3 * i)),
          concat (map (\<lambda>p. [a p, b p, c p]) ps) ! (3 * i + 2))])
       [0..<length ps]
     = map (\<lambda>p. [((xi, f p), (xi, f p), a p), ((xi, g p), (xi, f p), b p),
                         ((xi, h p), (xi, f p), c p)]) ps"
    by (rule nth_equalityI) (simp_all add: concat_triples_nth concat_triples_nth_Suc)
  then show ?thesis by (simp add: trapMutationStamps_def)
qed

text \<open>
  The Jacobian of the trap mutation: \<open>computePartialsForTrapMutation\<close> emits per mutating
  helium cluster three values \<open>- k_tm\<close>, \<open>+ k_tm\<close>, \<open>+ k_tm\<close> with the indices of
  He, HeV and I, and the solver handler stamps them as three entries in the column of the
  helium cluster, in the rows of He, HeV and I. Which clusters mutate at a grid point of the
  W110 surface and at which rate is decided by the rule table of the material, by the network
  and by the rate law, none of which is among the sources; the numbers of the regression test
  are therefore not derived here.
\<close>

lemma trapMutation_partials_layout:
  "(case computePartialsForTrapMutation tm net xi of
      (vals, indices, nMutating) \<Rightarrow>
        nMutating = length (mutatingPairs tm net xi)
        \<and> length vals = 3 * nMutating \<and> length indices = 3 * nMutating
        \<and> (\<forall>m < nMutating.
              indices ! (3 * m) = fst (mutatingPairs tm net xi ! m)
            \<and> indices ! (3 * m + 1) = snd (mutatingPairs tm net xi ! m)
            \<and> indices ! (3 * m + 2) = interstitialOffset net
            \<and> vals ! (3 * m) = - kMutation tm
            \<and> vals ! (3 * m + 1) = kMutation tm
            \<and> vals ! (3 * m + 2) = kMutation tm))
   \<and> trapMutationJacobian tm net xi =
       concat (map (\<lambda>(he, heV).
          [((xi, he), (xi, he), - kMutation tm),
           ((xi, heV), (xi, he), kMutation tm),
           ((xi, interstitialOffset net), (xi, he), kMutation tm)]) (mutatingPairs tm net xi))"
proof -
  let ?ps = "mutatingPairs tm net xi"
  have i: "concat (map (\<lambda>(he, heV). [he, heV, interstitialOffset net]) ?ps)
             = concat (map (\<lambda>p. [fst p, snd p, interstitialOffset net]) ?ps)"
    by (simp add: case_prod_unfold)
  have j: "(\<lambda>(he, heV).
          [((xi, he), (xi, he), - kMutation tm),
           ((xi, heV), (xi, he), kMutation tm),
           ((xi, interstitialOffset net), (xi, he), kMutation tm)])
         = (\<lambda>p. [((xi, fst p), (xi, fst p), - kMutation tm),
           ((xi, snd p), (xi, fst p), kMutation tm),
           ((xi, interstitialOffset net), (xi, fst p), kMutation tm)])"
    by (simp add: case_prod_unfold)
  have a: "\<forall>m < length ?ps.
              concat (map (\<lambda>p. [fst p, snd p, interstitialOffset net]) ?ps) ! (3 * m) = fst (?ps ! m)
            \<and> concat (map (\<lambda>p. [fst p, snd p, interstitialOffset net]) ?ps) ! (3 * m + 1) = snd (?ps ! m)
            \<and> concat (map (\<lambda>p. [fst p, snd p, interstitialOffset net]) ?ps) ! (3 * m + 2)
                = interstitialOffset net"
    using concat_triples_nth [of _ ?ps fst snd "\<lambda>p. interstitialOffset net"] by blast
  have b: "\<forall>m < length ?ps.
              concat (map (\<lambda>p. [- kMutation tm, kMutation tm, kMutation tm]) ?ps) ! (3 * m)
                = - kMutation tm
            \<and> concat (map (\<lambda>p. [- kMutation tm, kMutation tm, kMutation tm]) ?ps) ! (3 * m + 1)
                = kMutation tm
            \<and> concat (map (\<lambda>p. [- kMutation tm, kMutation tm, kMutation tm]) ?ps) ! (3 * m + 2)
                = kMutation tm"
    using concat_triples_nth [of _ ?ps "\<lambda>p. - kMutation tm" "\<lambda>p. kMutation tm" "\<lambda>p. kMutation tm"]
    by blast
  have c: "trapMutationJacobian tm net xi =
       concat (map (\<lambda>p. [((xi, fst p), (xi, fst p), - kMutation tm),
           ((xi, snd p), (xi, fst p), kMutation tm),
           ((xi, interstitialOffset net), (xi, fst p), kMutation tm)]) ?ps)"
    using trapMutationStamps_pairs [of xi "\<lambda>p. - kMutation tm" "\<lambda>p. kMutation tm" "\<lambda>p. kMutation tm"
            ?ps fst snd "\<lambda>p. interstitialOffset net"]
    by (simp add: trapMutationJacobian_def computePartialsForTrapMutation_def Let_def i)
  show ?thesis
    using a b c by (simp add: computePartialsForTrapMutation_def Let_def i j)
qed

lemma trapMutationJacobian_example:
  "trapMutationJacobian exTrapHandler exTrapNetwork 1
     = [((1, 0), (1, 0), - 2), ((1, 2), (1, 0), 2), ((1, 4), (1, 0), 2),
        ((1, 1), (1, 1), - 2), ((1, 3), (1, 1), 2), ((1, 4), (1, 1), 2)]"
  using trapMutation_partials_layout [of exTrapHandler exTrapNetwork 1]
  by (simp add: exTrap_pairs) (simp add: exTrapHandler_def exTrapNetwork_def)

end
